theory Spec2Isabelle
  imports Complex_Main "HOL-Library.Sublist"
begin

section \<open>JavaScript values used by the dashboard\<close>

text \<open>
  A JavaScript number is a finite value, one of the two infinities, or NaN. Finite values
  are modelled as reals: rounding to binary64 and the sign of zero are not represented.
\<close>

datatype number = Fin real | PInf | NInf | NaN

fun num_neg :: "number \<Rightarrow> number" where
  "num_neg (Fin x) = Fin (- x)"
| "num_neg PInf = NInf"
| "num_neg NInf = PInf"
| "num_neg NaN = NaN"

fun num_sub :: "number \<Rightarrow> number \<Rightarrow> number" where
  "num_sub NaN _ = NaN"
| "num_sub _ NaN = NaN"
| "num_sub (Fin x) (Fin y) = Fin (x - y)"
| "num_sub (Fin _) PInf = NInf"
| "num_sub (Fin _) NInf = PInf"
| "num_sub PInf PInf = NaN"
| "num_sub PInf _ = PInf"
| "num_sub NInf NInf = NaN"
| "num_sub NInf _ = NInf"

text \<open>
  A field of a decoded JSON payload that the code reads without knowing its type:
  it may be absent (\<open>undefined\<close>), \<open>null\<close>, a string or a number.
\<close>

datatype jsval = Undefined | Null | JStr string | JNum number

text \<open>Truthiness, as the operator \<open>||\<close> tests it.\<close>

fun truthy :: "jsval \<Rightarrow> bool" where
  "truthy Undefined = False"
| "truthy Null = False"
| "truthy (JStr s) = (s \<noteq> [])"
| "truthy (JNum (Fin x)) = (x \<noteq> 0)"
| "truthy (JNum NaN) = False"
| "truthy (JNum _) = True"

definition js_or :: "jsval \<Rightarrow> jsval \<Rightarrow> jsval" where
  "js_or a b = (if truthy a then a else b)"

section \<open>Strings\<close>

text \<open>
  Strings are lists of 8-bit characters. White space is the ASCII white space and line
  terminators together with the no-break space; letters outside ASCII have no case.
\<close>

definition is_ws :: "char \<Rightarrow> bool" where
  "is_ws c = (c = CHR 0x09 \<or> c = CHR 0x0A \<or> c = CHR 0x0B \<or> c = CHR 0x0C \<or>
              c = CHR 0x0D \<or> c = CHR 0x20 \<or> c = CHR 0xA0)"

definition trim :: "string \<Rightarrow> string" where
  "trim s = rev (dropWhile is_ws (rev (dropWhile is_ws s)))"

definition lower_char :: "char \<Rightarrow> char" where
  "lower_char c =
     (let n = (of_char c :: nat) in if 65 \<le> n \<and> n \<le> 90 then char_of (n + 32) else c)"

definition upper_char :: "char \<Rightarrow> char" where
  "upper_char c =
     (let n = (of_char c :: nat) in if 97 \<le> n \<and> n \<le> 122 then char_of (n - 32) else c)"

definition toLowerCase :: "string \<Rightarrow> string" where
  "toLowerCase s = map lower_char s"

definition toUpperCase :: "string \<Rightarrow> string" where
  "toUpperCase s = map upper_char s"

text \<open>\<open>s.includes(sub)\<close>: \<open>sub\<close> occurs in \<open>s\<close> as a contiguous run.\<close>

fun str_includes :: "string \<Rightarrow> string \<Rightarrow> bool" where
  "str_includes [] sub = (sub = [])"
| "str_includes (c # cs) sub = (prefix sub (c # cs) \<or> str_includes cs sub)"

text \<open>\<open>s.split(sep)\<close> for a one-character separator, and \<open>xs.join(sep)\<close>.\<close>

fun splitOn :: "char \<Rightarrow> string \<Rightarrow> string list" where
  "splitOn sep [] = [[]]"
| "splitOn sep (c # cs) =
     (if c = sep then [] # splitOn sep cs
      else (case splitOn sep cs of [] \<Rightarrow> [[c]] | w # ws \<Rightarrow> (c # w) # ws))"

fun joinWith :: "string \<Rightarrow> string list \<Rightarrow> string" where
  "joinWith sep [] = []"
| "joinWith sep [x] = x"
| "joinWith sep (x # y # ys) = x @ sep @ joinWith sep (y # ys)"

subsection \<open>parseFloat\<close>

text \<open>
  \<open>parseFloat\<close> skips leading white space and reads the longest prefix that is a
  decimal literal: an optional sign, then \<open>Infinity\<close> or digits with an optional
  fraction and an optional exponent. With no such prefix the result is NaN.
\<close>

definition is_digit :: "char \<Rightarrow> bool" where
  "is_digit c = (let n = (of_char c :: nat) in 48 \<le> n \<and> n \<le> 57)"

definition digit_val :: "char \<Rightarrow> nat" where
  "digit_val c = (of_char c :: nat) - 48"

definition digits_val :: "string \<Rightarrow> nat" where
  "digits_val ds = foldl (\<lambda>a c. 10 * a + digit_val c) 0 ds"

definition pow10 :: "int \<Rightarrow> real" where
  "pow10 e = (if 0 \<le> e then 10 ^ nat e else 1 / 10 ^ nat (- e))"

definition signed_digits :: "string \<Rightarrow> bool \<times> string" where
  "signed_digits r =
     (case r of
        [] \<Rightarrow> (False, [])
      | d # r2 \<Rightarrow>
          if d = CHR ''-'' then (True, takeWhile is_digit r2)
          else if d = CHR ''+'' then (False, takeWhile is_digit r2)
          else (False, takeWhile is_digit r))"

definition parse_exponent :: "string \<Rightarrow> int" where
  "parse_exponent s =
     (case s of
        [] \<Rightarrow> 0
      | c # r \<Rightarrow>
          if c = CHR ''e'' \<or> c = CHR ''E'' then
            (case signed_digits r of
               (neg, ds) \<Rightarrow>
                 if ds = [] then 0
                 else if neg then - int (digits_val ds) else int (digits_val ds))
          else 0)"

definition parse_unsigned :: "string \<Rightarrow> number" where
  "parse_unsigned s =
     (if prefix ''Infinity'' s then PInf
      else
        (let ip = takeWhile is_digit s;
             s3 = dropWhile is_digit s;
             fp = (case s3 of [] \<Rightarrow> []
                   | c # r \<Rightarrow> if c = CHR ''.'' then takeWhile is_digit r else []);
             s4 = (case s3 of [] \<Rightarrow> []
                   | c # r \<Rightarrow> if c = CHR ''.'' then dropWhile is_digit r else s3)
         in if ip = [] \<and> fp = [] then NaN
            else Fin ((real (digits_val ip) + real (digits_val fp) / 10 ^ length fp)
                      * pow10 (parse_exponent s4))))"

definition parseFloat_string :: "string \<Rightarrow> number" where
  "parseFloat_string s =
     (case dropWhile is_ws s of
        [] \<Rightarrow> NaN
      | c # r \<Rightarrow>
          if c = CHR ''-'' then num_neg (parse_unsigned r)
          else if c = CHR ''+'' then parse_unsigned r
          else parse_unsigned (c # r))"

text \<open>
  \<open>parseFloat\<close> converts its argument to a string first; a number printed and read
  back is the same number.
\<close>

fun parseFloat :: "jsval \<Rightarrow> number" where
  "parseFloat (JStr s) = parseFloat_string s"
| "parseFloat (JNum n) = n"
| "parseFloat Undefined = parseFloat_string ''undefined''"
| "parseFloat Null = parseFloat_string ''null''"

section \<open>The canonical model (types.ts)\<close>

datatype MarketMode = Bluechips | Memecoins

datatype Blockchain = Solana | Ethereum | Base | Bsc | AllChains

datatype SortKey = MarketCap | PriceChange | Volume | Name

datatype SortOrder = Desc | Asc

record Asset =
  asset_id :: string
  symbol :: string
  name :: string
  currentPrice :: number
  priceChange24h :: number
  marketCap :: number
  volume24h :: number
  sparklineData :: "number list"
  image_url :: string
  rank :: number
  blockchain_of :: "string option"
  contractAddress :: "string option"

section \<open>The state of the App component\<close>

record AppState =
  searchQuery :: string
  assets :: "Asset list"
  loading :: bool
  error :: "string option"
  lastUpdated :: "int option"
  sortKey :: SortKey
  sortOrder :: SortOrder
  marketMode :: MarketMode
  blockchain :: Blockchain

subsection \<open>The mode buttons\<close>

text \<open>
  The click handler of a mode button:
  \<open>setMarketMode(mode); setBlockchain('all'); setSearchQuery('')\<close>.
\<close>

definition clickMode :: "MarketMode \<Rightarrow> AppState \<Rightarrow> AppState" where
  "clickMode m s = s\<lparr>marketMode := m, blockchain := AllChains, searchQuery := []\<rparr>"

subsection \<open>The sort buttons and the comparator of processedAssets\<close>

text \<open>
  The click handler of a sort button, for the button's key \<open>k\<close>. The header renders
  a button for each key of \<open>sortButtons\<close>.
\<close>

definition sortButtons :: "SortKey list" where
  "sortButtons = [MarketCap, PriceChange, Volume]"

definition clickSort :: "SortKey \<Rightarrow> AppState \<Rightarrow> AppState" where
  "clickSort k s =
     (if sortKey s = k then s\<lparr>sortOrder := (if sortOrder s = Desc then Asc else Desc)\<rparr>
      else s\<lparr>sortKey := k, sortOrder := Desc\<rparr>)"

text \<open>
  The comparator handed to \<open>result.sort\<close>. \<open>localeCompare\<close> is the platform's
  locale-aware string comparison, a parameter here.
\<close>

definition sortComparator ::
  "(string \<Rightarrow> string \<Rightarrow> number) \<Rightarrow> SortKey \<Rightarrow> SortOrder \<Rightarrow> Asset \<Rightarrow> Asset \<Rightarrow> number" where
  "sortComparator localeCompare k ord a b =
     (let comp = (case k of
                    MarketCap \<Rightarrow> num_sub (marketCap b) (marketCap a)
                  | PriceChange \<Rightarrow> num_sub (priceChange24h b) (priceChange24h a)
                  | Volume \<Rightarrow> num_sub (volume24h b) (volume24h a)
                  | Name \<Rightarrow> localeCompare (name a) (name b))
      in if ord = Desc then comp else num_neg comp)"

section \<open>Network responses\<close>

text \<open>
  What \<open>fetch\<close> followed by \<open>response.json()\<close> can give: the request is rejected
  with an error message, or a response arrives with its \<open>ok\<close> flag and a body that
  either fails to decode (with a message) or decodes to data.
\<close>

datatype 'a response = Rejected string | Response bool "string + 'a"

section \<open>The ranked-asset adapter (fetchBluechips)\<close>

record Coin =
  coin_id :: string
  coin_symbol :: string
  coin_name :: string
  current_price :: number
  price_change_percentage_24h :: "number option"
  market_cap :: number
  total_volume :: number
  sparkline_in_7d_price :: "number list"
  coin_image :: string
  market_cap_rank :: number

text \<open>\<open>coin.price_change_percentage_24h || 0\<close>, with \<open>None\<close> for \<open>null\<close>.\<close>

definition numberOrZero :: "number option \<Rightarrow> number" where
  "numberOrZero v =
     (case v of None \<Rightarrow> Fin 0 | Some n \<Rightarrow> if truthy (JNum n) then n else Fin 0)"

definition coinToAsset :: "Coin \<Rightarrow> Asset" where
  "coinToAsset coin =
     \<lparr>asset_id = coin_id coin,
      symbol = toUpperCase (coin_symbol coin),
      name = coin_name coin,
      currentPrice = current_price coin,
      priceChange24h = numberOrZero (price_change_percentage_24h coin),
      marketCap = market_cap coin,
      volume24h = total_volume coin,
      sparklineData = sparkline_in_7d_price coin,
      image_url = coin_image coin,
      rank = market_cap_rank coin,
      blockchain_of = None,
      contractAddress = None\<rparr>"

text \<open>
  \<open>fetchBluechips\<close>, given the response of the market feed and the clock's reading
  when the assets are stored.
\<close>

definition fetchBluechips :: "Coin list response \<Rightarrow> int \<Rightarrow> AppState \<Rightarrow> AppState" where
  "fetchBluechips resp now s =
     (let s1 = s\<lparr>loading := True, error := None\<rparr> in
      case resp of
        Rejected msg \<Rightarrow> s1\<lparr>error := Some msg, loading := False\<rparr>
      | Response ok body \<Rightarrow>
          if \<not> ok then s1\<lparr>error := Some ''Liquidity feed dropped.'', loading := False\<rparr>
          else (case body of
                  Inl msg \<Rightarrow> s1\<lparr>error := Some msg, loading := False\<rparr>
                | Inr data \<Rightarrow>
                    s1\<lparr>assets := map coinToAsset data, lastUpdated := Some now,
                       loading := False\<rparr>))"

section \<open>The DEX-pair adapter (fetchMemecoins)\<close>

record BaseToken =
  address :: string
  token_symbol :: string
  token_name :: string

text \<open>
  A trading pair of the feed. \<open>priceChange_h24\<close> is \<open>pair.priceChange?.h24\<close> and
  \<open>volume_h24\<close> is \<open>pair.volume?.h24\<close>; \<open>liquidity_usd\<close> is
  \<open>pair.liquidity?.usd\<close>, a JSON number when present.
\<close>

record Pair =
  chainId :: string
  baseToken :: BaseToken
  priceUsd :: jsval
  priceChange_h24 :: jsval
  fdv :: jsval
  volume_h24 :: jsval
  liquidity_usd :: "real option"

record TokenProfile =
  tokenAddress :: string

datatype DexData = JArray "TokenProfile list" | JObject "Pair list option"

datatype request = SearchPairs string | LatestProfiles | TokenPairs string

definition chain_name :: "Blockchain \<Rightarrow> string" where
  "chain_name c =
     (case c of Solana \<Rightarrow> ''solana'' | Ethereum \<Rightarrow> ''ethereum'' | Base \<Rightarrow> ''base''
      | Bsc \<Rightarrow> ''bsc'' | AllChains \<Rightarrow> ''all'')"

definition filteredPairs :: "Blockchain \<Rightarrow> Pair list \<Rightarrow> Pair list" where
  "filteredPairs bc pairResults =
     (if bc = AllChains then pairResults
      else filter (\<lambda>p. chainId p = (if bc = Bsc then ''bsc'' else chain_name bc)) pairResults)"

text \<open>\<open>liquidity?.usd || 0\<close>.\<close>

definition liquidityOrZero :: "Pair \<Rightarrow> real" where
  "liquidityOrZero p = (case liquidity_usd p of None \<Rightarrow> 0 | Some x \<Rightarrow> x)"

definition byLiquidity :: "Pair \<Rightarrow> Pair \<Rightarrow> real" where
  "byLiquidity a b = liquidityOrZero b - liquidityOrZero a"

text \<open>
  \<open>Array.prototype.sort\<close> is stable: with a consistent comparator its result is the one
  of inserting each element before the first element it does not come after.
\<close>

fun insertBy :: "('a \<Rightarrow> 'a \<Rightarrow> real) \<Rightarrow> 'a \<Rightarrow> 'a list \<Rightarrow> 'a list" where
  "insertBy cmp x [] = [x]"
| "insertBy cmp x (y # ys) = (if cmp x y \<le> 0 then x # y # ys else y # insertBy cmp x ys)"

definition stableSort :: "('a \<Rightarrow> 'a \<Rightarrow> real) \<Rightarrow> 'a list \<Rightarrow> 'a list" where
  "stableSort cmp xs = foldr (insertBy cmp) xs []"

definition sortedPairs :: "Blockchain \<Rightarrow> Pair list \<Rightarrow> Pair list" where
  "sortedPairs bc pairResults = stableSort byLiquidity (filteredPairs bc pairResults)"

definition pairToAsset :: "Pair \<Rightarrow> Asset" where
  "pairToAsset pair =
     (let tokenAddress = address (baseToken pair) in
      \<lparr>asset_id = tokenAddress,
       symbol = token_symbol (baseToken pair),
       name = token_name (baseToken pair),
       currentPrice = parseFloat (js_or (priceUsd pair) (JStr ''0'')),
       priceChange24h = parseFloat (js_or (priceChange_h24 pair) (JStr ''0'')),
       marketCap = parseFloat (js_or (fdv pair) (JStr ''0'')),
       volume24h = parseFloat (js_or (volume_h24 pair) (JStr ''0'')),
       sparklineData = [],
       image_url = ''https://dd.dexscreener.com/ds-data/tokens/'' @ chainId pair @ ''/''
                   @ tokenAddress @ ''.png'',
       rank = Fin 999,
       blockchain_of = Some (chainId pair),
       contractAddress = Some tokenAddress\<rparr>)"

text \<open>The \<open>forEach\<close> over the sorted pairs, with the set \<open>seenTokens\<close>.\<close>

fun collectAssets :: "string set \<Rightarrow> Pair list \<Rightarrow> Asset list" where
  "collectAssets seenTokens [] = []"
| "collectAssets seenTokens (pair # rest) =
     (let tokenAddress = address (baseToken pair) in
      if tokenAddress \<notin> seenTokens
      then pairToAsset pair # collectAssets (insert tokenAddress seenTokens) rest
      else collectAssets seenTokens rest)"

definition mappedAssets :: "Blockchain \<Rightarrow> Pair list \<Rightarrow> Asset list" where
  "mappedAssets bc pairResults = collectAssets {} (sortedPairs bc pairResults)"

text \<open>\<open>query && query.trim().length > 0\<close>.\<close>

definition hasQuery :: "string option \<Rightarrow> bool" where
  "hasQuery query = (case query of None \<Rightarrow> False | Some q \<Rightarrow> q \<noteq> [] \<and> length (trim q) > 0)"

definition endpoint :: "string option \<Rightarrow> request" where
  "endpoint query =
     (case query of
        None \<Rightarrow> LatestProfiles
      | Some q \<Rightarrow> if hasQuery query then SearchPairs q else LatestProfiles)"

text \<open>The decoded body of a response, or \<open>None\<close> where the code throws.\<close>

definition okJson :: "'a response \<Rightarrow> 'a option" where
  "okJson r =
     (case r of
        Rejected _ \<Rightarrow> None
      | Response ok body \<Rightarrow>
          if \<not> ok then None else (case body of Inl _ \<Rightarrow> None | Inr d \<Rightarrow> Some d))"

text \<open>\<open>data.pairs || []\<close>.\<close>

definition pairsOrEmpty :: "DexData \<Rightarrow> Pair list" where
  "pairsOrEmpty d = (case d of JObject (Some ps) \<Rightarrow> ps | _ \<Rightarrow> [])"

definition profileAddresses :: "DexData \<Rightarrow> string" where
  "profileAddresses d =
     (case d of JArray ps \<Rightarrow> joinWith '','' (map tokenAddress (take 50 ps)) | JObject _ \<Rightarrow> [])"

datatype pairs_outcome = Thrown | NoAddresses | PairResults "Pair list"

text \<open>The network part of \<open>fetchMemecoins\<close>: one call in search mode, two in discovery.\<close>

definition fetchPairs :: "string option \<Rightarrow> (request \<Rightarrow> DexData response) \<Rightarrow> pairs_outcome" where
  "fetchPairs query net =
     (case okJson (net (endpoint query)) of
        None \<Rightarrow> Thrown
      | Some data \<Rightarrow>
          if hasQuery query then PairResults (pairsOrEmpty data)
          else
            (let addresses = profileAddresses data in
             if addresses = [] then NoAddresses
             else (case okJson (net (TokenPairs addresses)) of
                     None \<Rightarrow> Thrown
                   | Some pairData \<Rightarrow> PairResults (pairsOrEmpty pairData))))"

definition fetchMemecoins ::
  "string option \<Rightarrow> (request \<Rightarrow> DexData response) \<Rightarrow> int \<Rightarrow> AppState \<Rightarrow> AppState" where
  "fetchMemecoins query net now s =
     (let s1 = s\<lparr>loading := True, error := None\<rparr> in
      case fetchPairs query net of
        Thrown \<Rightarrow> s1\<lparr>error := Some ''Dex Uplink Interrupted'', loading := False\<rparr>
      | NoAddresses \<Rightarrow> s1\<lparr>assets := [], loading := False\<rparr>
      | PairResults pairResults \<Rightarrow>
          s1\<lparr>assets := mappedAssets (blockchain s) pairResults, lastUpdated := Some now,
             loading := False\<rparr>)"

section \<open>The query coordinator (the effect of App)\<close>

text \<open>
  The effect depends on the mode, the chain filter and the search text. It runs again
  after a render in which one of them changed; before it runs again, the cleanup of its
  previous run clears the timer that run had set. Time is counted in milliseconds; a
  timer fires at its deadline, and a change happens at the instant of its event.
\<close>

datatype event = TypeSearch string | ClickMode MarketMode | ClickChain Blockchain

fun applyEvent :: "event \<Rightarrow> AppState \<Rightarrow> AppState" where
  "applyEvent (TypeSearch v) s = s\<lparr>searchQuery := v\<rparr>"
| "applyEvent (ClickMode m) s = clickMode m s"
| "applyEvent (ClickChain c) s = s\<lparr>blockchain := c\<rparr>"

datatype trigger = RunFetchBluechips | RunFetchMemecoins "string option"

text \<open>
  The timers of the page. \<open>setTimeout\<close> adds a timer of its own, with a fresh
  identifier, and gives the identifier back; a timer stays until it fires or
  \<open>clearTimeout\<close> is called with its identifier. A timer of the effect holds its
  deadline and the search text its callback closed over. \<open>effectTimer\<close> is the
  identifier that the cleanup returned by the last run of the effect closed over
  (\<open>None\<close> when that run returned no cleanup); \<open>fired\<close> logs the fetches started.
\<close>

record Scheduler =
  timers :: "(nat \<times> int \<times> string) list"
  nextTimer :: nat
  effectTimer :: "nat option"
  fired :: "(int \<times> trigger) list"

definition setTimeout :: "int \<Rightarrow> string \<Rightarrow> Scheduler \<Rightarrow> nat \<times> Scheduler" where
  "setTimeout deadline q c =
     (nextTimer c,
      c\<lparr>timers := timers c @ [(nextTimer c, deadline, q)], nextTimer := Suc (nextTimer c)\<rparr>)"

definition clearTimeout :: "nat \<Rightarrow> Scheduler \<Rightarrow> Scheduler" where
  "clearTimeout timer c = c\<lparr>timers := filter (\<lambda>(i, d, q). i \<noteq> timer) (timers c)\<rparr>"

definition effectDeps :: "AppState \<Rightarrow> MarketMode \<times> Blockchain \<times> string" where
  "effectDeps s = (marketMode s, blockchain s, searchQuery s)"

text \<open>
  The body of the effect, run at time \<open>t\<close>. Only the branch that sets a timer returns
  a cleanup.
\<close>

definition runEffect :: "int \<Rightarrow> AppState \<Rightarrow> Scheduler \<Rightarrow> Scheduler" where
  "runEffect t s c =
     (if marketMode s = Bluechips
      then c\<lparr>fired := fired c @ [(t, RunFetchBluechips)], effectTimer := None\<rparr>
      else if length (trim (searchQuery s)) > 0
           then (case setTimeout (t + 600) (searchQuery s) c of
                   (timer, c') \<Rightarrow> c'\<lparr>effectTimer := Some timer\<rparr>)
           else c\<lparr>fired := fired c @ [(t, RunFetchMemecoins None)], effectTimer := None\<rparr>)"

text \<open>The cleanup \<open>() => clearTimeout(timer)\<close> of the last run, if it returned one.\<close>

definition cleanupEffect :: "Scheduler \<Rightarrow> Scheduler" where
  "cleanupEffect c =
     (case effectTimer c of None \<Rightarrow> c | Some timer \<Rightarrow> clearTimeout timer c)"

text \<open>
  Time passes up to \<open>t\<close>: every timer whose deadline has come fires, the earlier
  deadline first, and calls \<open>fetchMemecoins\<close> with the text it closed over.
\<close>

definition elapse :: "int \<Rightarrow> Scheduler \<Rightarrow> Scheduler" where
  "elapse t c =
     c\<lparr>timers := filter (\<lambda>(i, d, q). \<not> d \<le> t) (timers c),
       fired := fired c @
         map (\<lambda>(i, d, q). (d, RunFetchMemecoins (Some q)))
           (sort_key (\<lambda>(i, d, q). d) (filter (\<lambda>(i, d, q). d \<le> t) (timers c)))\<rparr>"

definition handleEvent :: "int \<Rightarrow> event \<Rightarrow> AppState \<times> Scheduler \<Rightarrow> AppState \<times> Scheduler" where
  "handleEvent t ev sc =
     (case sc of (s, c) \<Rightarrow>
        (let c1 = elapse t c; s' = applyEvent ev s in
         if effectDeps s' = effectDeps s then (s', c1)
         else (s', runEffect t s' (cleanupEffect c1))))"

fun handleEvents :: "(int \<times> event) list \<Rightarrow> AppState \<times> Scheduler \<Rightarrow> AppState \<times> Scheduler" where
  "handleEvents [] sc = sc"
| "handleEvents ((t, ev) # evs) sc = handleEvents evs (handleEvent t ev sc)"

text \<open>
  A sequence of timed search texts in which every text is non-blank and differs from the
  one before it, and every change comes after the previous one and less than 600ms after
  it. \<open>t0\<close> and \<open>q0\<close> are the time and text before the first of them.
\<close>

fun rapidChanges :: "int \<Rightarrow> string \<Rightarrow> (int \<times> string) list \<Rightarrow> bool" where
  "rapidChanges t0 q0 [] = True"
| "rapidChanges t0 q0 ((t, q) # rest) =
     (t0 \<le> t \<and> t < t0 + 600 \<and> q \<noteq> q0 \<and> length (trim q) > 0 \<and> rapidChanges t q rest)"

definition searchEvents :: "(int \<times> string) list \<Rightarrow> (int \<times> event) list" where
  "searchEvents chs = map (\<lambda>(t, q). (t, TypeSearch q)) chs"

section \<open>The generative service\<close>

text \<open>
  What \<open>ai.models.generateContent\<close> gives: it throws, or it returns a response with
  an optional text and the grounding chunks of the first candidate, each with an
  optional \<open>web\<close> entry. An absent \<open>uri\<close> is the empty string.
\<close>

record Web =
  title :: string
  uri :: string

record AiResponse =
  response_text :: "string option"
  groundingChunks :: "Web option list"

datatype ai_reply = CallThrows | CallReturns AiResponse

section \<open>The news cache (NewsFeed.fetchNews)\<close>

record NewsItem =
  headline :: string
  summary :: string
  url :: string
  timestamp :: string

record CacheData =
  items :: "NewsItem list"
  expiry :: int

definition CACHE_TTL :: int where
  "CACHE_TTL = 15 * 60 * 1000"

text \<open>
  The text stored under \<open>CACHE_KEY\<close>, by what the read path does with it: the empty
  string (which \<open>if (cached)\<close> takes for no entry), a text that \<open>JSON.parse\<close> rejects,
  or the serialisation of a cache entry, which \<open>JSON.parse\<close> gives back as written.
  A text that parses is taken to have the declared type \<open>CacheData\<close>.
\<close>

datatype stored_text = EmptyText | Malformed | Serialized CacheData

definition JSON_stringify :: "CacheData \<Rightarrow> stored_text" where
  "JSON_stringify c = Serialized c"

definition JSON_parse :: "stored_text \<Rightarrow> CacheData option" where
  "JSON_parse txt = (case txt of Serialized c \<Rightarrow> Some c | _ \<Rightarrow> None)"

text \<open>
  The component's state, the storage cell of \<open>CACHE_KEY\<close> (\<open>None\<close> when the key is
  absent) and a count of the calls made to the service.
\<close>

record NewsState =
  news :: "NewsItem list"
  newsLoading :: bool
  newsError :: bool
  isCached :: bool
  localStorage :: "stored_text option"
  networkCalls :: nat

text \<open>
  What one call of \<open>fetchNews\<close> meets outside the component: the clock at the cache
  check, the reply of the service, the clock when the items are built and when the cache
  is written, and the locale's formatting of a time of day.
\<close>

record NewsCall =
  clock_check :: int
  service :: ai_reply
  clock_items :: int
  clock_write :: int
  formatTime :: "int \<Rightarrow> string"

text \<open>\<open>replace(/^\d+\.\s*/, '')\<close> and \<open>replace(/^[-*]\s*/, '')\<close>.\<close>

definition stripNumbering :: "string \<Rightarrow> string" where
  "stripNumbering l =
     (if takeWhile is_digit l = [] then l
      else (case dropWhile is_digit l of
              [] \<Rightarrow> l
            | c # r \<Rightarrow> if c = CHR ''.'' then dropWhile is_ws r else l))"

definition stripBullet :: "string \<Rightarrow> string" where
  "stripBullet l =
     (case l of
        [] \<Rightarrow> []
      | c # r \<Rightarrow> if c = CHR ''-'' \<or> c = CHR ''*'' then dropWhile is_ws r else l)"

text \<open>\<open>chunks[i]?.web?.uri\<close>.\<close>

definition uriAt :: "Web option list \<Rightarrow> nat \<Rightarrow> string" where
  "uriAt chunks i =
     (if i < length chunks then (case chunks ! i of None \<Rightarrow> [] | Some w \<Rightarrow> uri w) else [])"

text \<open>The body of the loop, for line \<open>i\<close>.\<close>

definition newsItemAt :: "(int \<Rightarrow> string) \<Rightarrow> int \<Rightarrow> Web option list \<Rightarrow> nat \<Rightarrow> string \<Rightarrow> NewsItem" where
  "newsItemAt fmt now chunks i line =
     \<lparr>headline =
        (case splitOn CHR '':'' (stripBullet (stripNumbering line)) of
           [] \<Rightarrow> ''Market Intel''
         | h # _ \<Rightarrow> if h \<noteq> [] then h else ''Market Intel''),
      summary =
        (if str_includes line '':''
         then trim (joinWith '':'' (tl (splitOn CHR '':'' line)))
         else line),
      url =
        (if uriAt chunks i \<noteq> [] then uriAt chunks i
         else if uriAt chunks 0 \<noteq> [] then uriAt chunks 0
         else ''#''),
      timestamp = fmt (now - int i * 15 * 60000)\<rparr>"

text \<open>The list \<open>newsItems\<close> built from a response.\<close>

definition newsItemsOf :: "(int \<Rightarrow> string) \<Rightarrow> int \<Rightarrow> AiResponse \<Rightarrow> NewsItem list" where
  "newsItemsOf fmt now response =
     (let txt = (case response_text response of None \<Rightarrow> [] | Some t \<Rightarrow> t);
          chunks = groundingChunks response;
          lines = filter (\<lambda>l. length (trim l) > 10) (splitOn CHR 0x0A txt)
      in map (\<lambda>(i, line). newsItemAt fmt now chunks i line) (enumerate 0 (take 8 lines)))"

text \<open>
  Step 1 of \<open>fetchNews\<close>, at clock reading \<open>now\<close>: the items of a cache hit, if any,
  and the storage cell afterwards.
\<close>

definition checkCache :: "int \<Rightarrow> stored_text option \<Rightarrow> NewsItem list option \<times> stored_text option" where
  "checkCache now cell =
     (case cell of
        None \<Rightarrow> (None, cell)
      | Some cached \<Rightarrow>
          if cached = EmptyText then (None, cell)
          else (case JSON_parse cached of
                  None \<Rightarrow> (None, None)
                | Some parsed \<Rightarrow>
                    if now < expiry parsed then (Some (items parsed), cell)
                    else (None, cell)))"

text \<open>Steps 2 and 3: the fresh fetch.\<close>

definition freshFetch :: "NewsCall \<Rightarrow> NewsState \<Rightarrow> NewsState" where
  "freshFetch env s =
     (let s1 = s\<lparr>newsLoading := True, newsError := False, isCached := False,
                 networkCalls := networkCalls s + 1\<rparr> in
      case service env of
        CallThrows \<Rightarrow> s1\<lparr>newsError := True, newsLoading := False\<rparr>
      | CallReturns response \<Rightarrow>
          (let newsItems = newsItemsOf (formatTime env) (clock_items env) response in
           if length newsItems > 0
           then s1\<lparr>news := newsItems,
                   localStorage :=
                     Some (JSON_stringify
                             \<lparr>items = newsItems, expiry = clock_write env + CACHE_TTL\<rparr>),
                   newsLoading := False\<rparr>
           else s1\<lparr>newsError := True, newsLoading := False\<rparr>))"

definition fetchNews :: "bool \<Rightarrow> NewsCall \<Rightarrow> NewsState \<Rightarrow> NewsState" where
  "fetchNews force env s =
     (if \<not> force then
        (case checkCache (clock_check env) (localStorage s) of
           (Some cachedItems, cell) \<Rightarrow>
             s\<lparr>news := cachedItems, newsLoading := False, isCached := True\<rparr>
         | (None, cell) \<Rightarrow> freshFetch env (s\<lparr>localStorage := cell\<rparr>))
      else freshFetch env s)"

section \<open>The assistant's fallback (ChatBot.sendMessage)\<close>

datatype Role = User | Model

record Message =
  role :: Role
  msg_text :: string
  sources :: "Web list option"
  msg_timestamp :: string

record ChatState =
  messages :: "Message list"
  input :: string
  isTyping :: bool

definition bitcoinReply :: string where
  "bitcoinReply = ''Bitcoin is currently testing major psychological resistance levels. On-chain data suggests institutional wallets are in a 'holding' phase, while retail sentiment remains cautiously optimistic. Watch the 200-day moving average for trend confirmation.''"

definition ethereumReply :: string where
  "ethereumReply = ''Ethereum's network activity has seen a slight uptick in L2 gas consumption. Deflationary pressures are mounting as burn rates exceed issuance. The current focus is on upcoming network upgrades aimed at scalability.''"

definition memecoinReply :: string where
  "memecoinReply = ''The memecoin sector is currently high-volatility with significant rotation observed into AI-themed assets. While liquidity is thin, social dominance for top-tier memes remains strong. High risk, high reward dynamics are dominant here.''"

definition marketReply :: string where
  "marketReply = ''Broad market structure remains in a consolidation phase. Dominance levels are shifting as capital rotates into specific sector narratives. Macro indicators point towards a period of volatility as traders await clarity on global fiscal policies.''"

definition defaultReply :: string where
  "defaultReply = ''The terminal is operating in simulated intelligence mode. Current data streams indicate localized volatility and increasing accumulation in blue-chip assets. Interrogate specific tickers for deeper surveillance.''"

definition getSimulatedResponse :: "string \<Rightarrow> string" where
  "getSimulatedResponse userInput =
     (let inp = toLowerCase userInput in
      if str_includes inp ''bitcoin'' \<or> str_includes inp ''btc'' then bitcoinReply
      else if str_includes inp ''ethereum'' \<or> str_includes inp ''eth'' then ethereumReply
      else if str_includes inp ''memecoin'' \<or> str_includes inp ''meme'' then memecoinReply
      else if str_includes inp ''analysis'' \<or> str_includes inp ''market'' then marketReply
      else defaultReply)"

definition degradedMarker :: string where
  "degradedMarker = '' (Note: Live uplink failed, using simulated data).''"

definition liveSources :: "Web option list \<Rightarrow> Web list" where
  "liveSources grounding =
     concat (map (\<lambda>w. case w of None \<Rightarrow> [] | Some web \<Rightarrow> if uri web \<noteq> [] then [web] else [])
       grounding)"

text \<open>\<open>overrideInput || input\<close>.\<close>

definition textToSend :: "string option \<Rightarrow> ChatState \<Rightarrow> string" where
  "textToSend overrideInput s =
     (case overrideInput of None \<Rightarrow> input s | Some v \<Rightarrow> if v \<noteq> [] then v else input s)"

text \<open>
  \<open>sendMessage\<close>, with the state as it is once the reply has been appended.
  \<open>hasApiKey\<close> is the constant \<open>HAS_API_KEY\<close>, \<open>live\<close> what the live call does
  when it is made; \<open>t_user\<close> and \<open>t_model\<close> are the clock's readings, formatted, when
  the two messages are built.
\<close>

definition sendMessage ::
  "bool \<Rightarrow> string option \<Rightarrow> ai_reply \<Rightarrow> string \<Rightarrow> string \<Rightarrow> ChatState \<Rightarrow> ChatState" where
  "sendMessage hasApiKey overrideInput live t_user t_model s =
     (let txt = textToSend overrideInput s in
      if trim txt = [] \<or> isTyping s then s
      else
        (let userMessage = \<lparr>role = User, msg_text = txt, sources = None,
                            msg_timestamp = t_user\<rparr>;
             s1 = s\<lparr>messages := messages s @ [userMessage], input := [], isTyping := True\<rparr>
         in if \<not> hasApiKey then
              s1\<lparr>messages := messages s1 @
                    [\<lparr>role = Model, msg_text = getSimulatedResponse txt,
                      sources = None, msg_timestamp = t_model\<rparr>],
                 isTyping := False\<rparr>
            else
              (case live of
                 CallReturns response \<Rightarrow>
                   (let modelText = (case response_text response of
                                       None \<Rightarrow> ''Protocol timeout. Signal lost.''
                                     | Some v \<Rightarrow>
                                         if v \<noteq> [] then v
                                         else ''Protocol timeout. Signal lost.'');
                        srcs = liveSources (groundingChunks response)
                    in s1\<lparr>messages := messages s1 @
                            [\<lparr>role = Model, msg_text = modelText,
                              sources = (if length srcs > 0 then Some srcs else None),
                              msg_timestamp = t_model\<rparr>],
                          isTyping := False\<rparr>)
               | CallThrows \<Rightarrow>
                   s1\<lparr>messages := messages s1 @
                         [\<lparr>role = Model,
                           msg_text = getSimulatedResponse txt @ degradedMarker,
                           sources = None, msg_timestamp = t_model\<rparr>],
                      isTyping := False\<rparr>)))"

section \<open>Vocabulary of the properties and sample inputs\<close>

text \<open>A fetch that failed in transport or came back with a non-success status.\<close>

definition failedResponse :: "'a response \<Rightarrow> bool" where
  "failedResponse r = (case r of Rejected _ \<Rightarrow> True | Response ok _ \<Rightarrow> \<not> ok)"

text \<open>A field that is absent, \<open>null\<close> or the empty text.\<close>

definition missingField :: "jsval \<Rightarrow> bool" where
  "missingField v = (v = Undefined \<or> v = Null \<or> v = JStr [])"

text \<open>The initial values of the \<open>useState\<close> calls of the three components.\<close>

definition initialAppState :: AppState where
  "initialAppState =
     \<lparr>searchQuery = [], assets = [], loading = True, error = None, lastUpdated = None,
      sortKey = MarketCap, sortOrder = Desc, marketMode = Bluechips, blockchain = AllChains\<rparr>"

definition initialNewsState :: NewsState where
  "initialNewsState =
     \<lparr>news = [], newsLoading = True, newsError = False, isCached = False,
      localStorage = None, networkCalls = 0\<rparr>"

definition initialChatState :: ChatState where
  "initialChatState = \<lparr>messages = [], input = [], isTyping = False\<rparr>"

definition idleScheduler :: Scheduler where
  "idleScheduler = \<lparr>timers = [], nextTimer = 0, effectTimer = None, fired = []\<rparr>"

text \<open>
  A scheduler as the effect leaves it: at time \<open>t\<close> no timer is live, or the only live
  timer is the one the effect's cleanup holds and its deadline has not come.
\<close>

definition quiet :: "int \<Rightarrow> Scheduler \<Rightarrow> bool" where
  "quiet t c =
     (case timers c of
        [] \<Rightarrow> True
      | [(i, d, q)] \<Rightarrow> effectTimer c = Some i \<and> t < d
      | _ \<Rightarrow> False)"

text \<open>The deadlines and search texts of the live timers.\<close>

definition pendingCalls :: "Scheduler \<Rightarrow> (int \<times> string) list" where
  "pendingCalls c = map (\<lambda>(i, d, q). (d, q)) (timers c)"

text \<open>A pair of token \<open>0xAB\<close> on Solana, with a given quoted price and liquidity.\<close>

definition solanaPair :: "jsval \<Rightarrow> real option \<Rightarrow> Pair" where
  "solanaPair price liq =
     \<lparr>chainId = ''solana'',
      baseToken = \<lparr>address = ''0xAB'', token_symbol = ''AB'', token_name = ''Token AB''\<rparr>,
      priceUsd = price, priceChange_h24 = Null, fdv = JStr [], volume_h24 = Undefined,
      liquidity_usd = liq\<rparr>"

definition twoPools :: "Pair list" where
  "twoPools = [solanaPair (JStr ''1.5'') (Some 100), solanaPair (JStr ''2.5'') (Some 500)]"

text \<open>
  A DEX service that answers a search with the two pools and a discovery request with
  one token address, and refuses the batched lookup.
\<close>

definition sampleDex :: "request \<Rightarrow> DexData response" where
  "sampleDex req =
     (case req of
        SearchPairs _ \<Rightarrow> Response True (Inr (JObject (Some twoPools)))
      | LatestProfiles \<Rightarrow> Response True (Inr (JArray [\<lparr>tokenAddress = ''0xAB''\<rparr>]))
      | TokenPairs _ \<Rightarrow> Response False (Inl []))"

definition solanaMemecoins :: AppState where
  "solanaMemecoins = initialAppState\<lparr>marketMode := Memecoins, blockchain := Solana\<rparr>"

definition holdingState :: AppState where
  "holdingState =
     initialAppState\<lparr>assets := [pairToAsset (solanaPair (JStr ''2.5'') (Some 500))],
                     loading := False\<rparr>"

text \<open>Typing a phrase one character every 100ms, for two seconds.\<close>

definition typedChanges :: "(int \<times> string) list" where
  "typedChanges =
     [(0, ''d''),
      (100, ''do''),
      (200, ''dog''),
      (300, ''doge''),
      (400, ''dogec''),
      (500, ''dogeco''),
      (600, ''dogecoi''),
      (700, ''dogecoin''),
      (800, ''dogecoin ''),
      (900, ''dogecoin t''),
      (1000, ''dogecoin to''),
      (1100, ''dogecoin to ''),
      (1200, ''dogecoin to t''),
      (1300, ''dogecoin to th''),
      (1400, ''dogecoin to the''),
      (1500, ''dogecoin to the ''),
      (1600, ''dogecoin to the m''),
      (1700, ''dogecoin to the mo''),
      (1800, ''dogecoin to the moo''),
      (1900, ''dogecoin to the moon''),
      (2000, ''dogecoin to the moon!'')]"

text \<open>A reply of the news service with two usable lines, and a clock format.\<close>

definition sampleResponse :: AiResponse where
  "sampleResponse =
     \<lparr>response_text =
        Some (''1. BTC holds: flat'' @ [CHR 0x0A] @ ''ok'' @ [CHR 0x0A] @ ''- ETH gas ups!''),
      groundingChunks = [Some \<lparr>title = ''feed'', uri = ''https://example.org/a''\<rparr>]\<rparr>"

text \<open>A reply with no text.\<close>

definition silentResponse :: AiResponse where
  "silentResponse = \<lparr>response_text = None, groundingChunks = []\<rparr>"

definition sampleClock :: "int \<Rightarrow> string" where
  "sampleClock t = (if t = 2000 then ''09:30'' else ''09:15'')"

definition sampleItems :: "NewsItem list" where
  "sampleItems =
     [\<lparr>headline = ''BTC holds'', summary = ''flat'', url = ''https://example.org/a'',
       timestamp = ''09:30''\<rparr>,
      \<lparr>headline = ''ETH gas ups!'', summary = ''- ETH gas ups!'',
       url = ''https://example.org/a'', timestamp = ''09:15''\<rparr>]"

definition sampleCall :: "int \<Rightarrow> ai_reply \<Rightarrow> NewsCall" where
  "sampleCall t reply =
     \<lparr>clock_check = t, service = reply, clock_items = t + 1000, clock_write = t + 1000,
      formatTime = sampleClock\<rparr>"

definition staleItem :: NewsItem where
  "staleItem =
     \<lparr>headline = ''Old headline'', summary = ''Old summary'', url = ''#'',
      timestamp = ''08:00''\<rparr>"

section \<open>Properties of the mode and sort buttons\<close>

text \<open>
  C9. Changing the market mode resets the chain filter to "all" and clears the search
  text, whatever the old and the new mode are; the mode becomes the one clicked and the
  other fields of the state keep their values.
\<close>

theorem clickMode_resets:
  "blockchain (clickMode m s) = AllChains \<and> searchQuery (clickMode m s) = [] \<and>
   marketMode (clickMode m s) = m \<and> assets (clickMode m s) = assets s \<and>
   sortKey (clickMode m s) = sortKey s \<and> sortOrder (clickMode m s) = sortOrder s"
  by (simp add: clickMode_def)

text \<open>
  C8. For every sort key \<open>k\<close>: a click on the button of \<open>k\<close> leaves \<open>k\<close> selected;
  when \<open>k\<close> was already selected the order toggles between descending and ascending,
  and when another key was selected the order becomes descending. The ascending
  comparator of \<open>k\<close> is the negation of its descending comparator, on every two assets.
\<close>

theorem clickSort_toggles_or_resets:
  "sortKey (clickSort k s) = k \<and>
   sortOrder (clickSort k s) =
     (if sortKey s = k then (if sortOrder s = Desc then Asc else Desc) else Desc) \<and>
   sortComparator localeCompare k Asc a b = num_neg (sortComparator localeCompare k Desc a b)"
  by (simp add: clickSort_def sortComparator_def Let_def)

theorem clickSort_toggles_or_resets_witness:
  "sortKey (clickSort MarketCap initialAppState) = MarketCap \<and>
   sortOrder (clickSort MarketCap initialAppState) = Asc \<and>
   sortOrder (clickSort MarketCap (clickSort MarketCap initialAppState)) = Desc \<and>
   sortKey (clickSort Volume (clickSort MarketCap initialAppState)) = Volume \<and>
   sortOrder (clickSort Volume (clickSort MarketCap initialAppState)) = Desc"
  using clickSort_toggles_or_resets[of MarketCap initialAppState]
    clickSort_toggles_or_resets[of MarketCap "clickSort MarketCap initialAppState"]
    clickSort_toggles_or_resets[of Volume "clickSort MarketCap initialAppState"]
  by (simp add: initialAppState_def)

section \<open>Failed fetches\<close>

lemma okJson_failed: "failedResponse r \<Longrightarrow> okJson r = None"
  by (cases r) (simp_all add: failedResponse_def okJson_def)

lemma fetchBluechips_failed:
  "failedResponse resp \<Longrightarrow>
   fetchBluechips resp now s =
     s\<lparr>error := Some (case resp of Rejected msg \<Rightarrow> msg
                       | Response _ _ \<Rightarrow> ''Liquidity feed dropped.''),
       loading := False\<rparr>"
  by (cases resp) (simp_all add: failedResponse_def fetchBluechips_def)

lemma fetchMemecoins_thrown:
  "fetchPairs query net = Thrown \<Longrightarrow>
   fetchMemecoins query net now s =
     s\<lparr>error := Some ''Dex Uplink Interrupted'', loading := False\<rparr>"
  by (simp add: fetchMemecoins_def)

lemma fetchPairs_first_failed:
  "failedResponse (net (endpoint query)) \<Longrightarrow> fetchPairs query net = Thrown"
  by (simp add: fetchPairs_def okJson_failed)

lemma fetchPairs_second_failed:
  "\<not> hasQuery query \<Longrightarrow> okJson (net (endpoint query)) = Some data \<Longrightarrow>
   profileAddresses data \<noteq> [] \<Longrightarrow>
   failedResponse (net (TokenPairs (profileAddresses data))) \<Longrightarrow>
   fetchPairs query net = Thrown"
  by (simp add: fetchPairs_def okJson_failed Let_def)

text \<open>
  C10. When the market feed fails (the request is rejected or its status is not a
  success), \<open>fetchBluechips\<close> leaves the held assets as they were: the state it returns
  is the old one with an error message set and the loading flag cleared. The same holds
  for \<open>fetchMemecoins\<close> when its first request fails, and when the discovery request
  succeeded and the batched pair lookup fails.
\<close>

theorem failed_fetch_keeps_assets:
  "(failedResponse resp \<longrightarrow>
      assets (fetchBluechips resp now s) = assets s \<and>
      error (fetchBluechips resp now s) \<noteq> None \<and>
      fetchBluechips resp now s =
        s\<lparr>error := error (fetchBluechips resp now s), loading := False\<rparr>) \<and>
   (failedResponse (net (endpoint query)) \<longrightarrow>
      assets (fetchMemecoins query net now s) = assets s \<and>
      fetchMemecoins query net now s =
        s\<lparr>error := Some ''Dex Uplink Interrupted'', loading := False\<rparr>) \<and>
   (\<not> hasQuery query \<and> okJson (net (endpoint query)) = Some data \<and>
    profileAddresses data \<noteq> [] \<and>
    failedResponse (net (TokenPairs (profileAddresses data))) \<longrightarrow>
      assets (fetchMemecoins query net now s) = assets s \<and>
      fetchMemecoins query net now s =
        s\<lparr>error := Some ''Dex Uplink Interrupted'', loading := False\<rparr>)"
  by (simp add: fetchBluechips_failed fetchMemecoins_thrown fetchPairs_first_failed
      fetchPairs_second_failed)

theorem failed_fetch_keeps_assets_witness:
  "failedResponse (Response False (Inl []) :: Coin list response) \<and>
   assets (fetchBluechips (Response False (Inl [])) 7 holdingState) = assets holdingState \<and>
   error (fetchBluechips (Response False (Inl [])) 7 holdingState) =
     Some ''Liquidity feed dropped.'' \<and>
   failedResponse ((\<lambda>_. Rejected ''Failed to fetch'') (endpoint (Some ''ab'')) :: DexData response) \<and>
   assets (fetchMemecoins (Some ''ab'') (\<lambda>_. Rejected ''Failed to fetch'') 7 holdingState) =
     assets holdingState \<and>
   okJson (sampleDex (endpoint None)) = Some (JArray [\<lparr>tokenAddress = ''0xAB''\<rparr>]) \<and>
   failedResponse (sampleDex (TokenPairs (profileAddresses (JArray [\<lparr>tokenAddress = ''0xAB''\<rparr>])))) \<and>
   assets (fetchMemecoins None sampleDex 7 holdingState) = assets holdingState \<and>
   length (assets holdingState) = 1"
proof -
  have f1: "failedResponse (Response False (Inl []) :: Coin list response)"
    by (simp add: failedResponse_def)
  have f2: "failedResponse ((\<lambda>_. Rejected ''Failed to fetch'') (endpoint (Some ''ab'')) :: DexData response)"
    by (simp add: failedResponse_def)
  have h3: "\<not> hasQuery None" by (simp add: hasQuery_def)
  have o3: "okJson (sampleDex (endpoint None)) = Some (JArray [\<lparr>tokenAddress = ''0xAB''\<rparr>])"
    by (simp add: okJson_def sampleDex_def endpoint_def)
  have a3: "profileAddresses (JArray [\<lparr>tokenAddress = ''0xAB''\<rparr>]) \<noteq> []"
    by (simp add: profileAddresses_def)
  have f3: "failedResponse (sampleDex (TokenPairs (profileAddresses (JArray [\<lparr>tokenAddress = ''0xAB''\<rparr>]))))"
    by (simp add: failedResponse_def sampleDex_def)
  have e: "error (fetchBluechips (Response False (Inl [])) 7 holdingState) =
     Some ''Liquidity feed dropped.''"
    by (simp add: fetchBluechips_def)
  have n: "length (assets holdingState) = 1"
    by (simp add: holdingState_def initialAppState_def)
  note w1 = failed_fetch_keeps_assets[where resp = "Response False (Inl []) :: Coin list response"
      and now = 7 and s = holdingState and query = "Some ''ab''"
      and net = "\<lambda>_. Rejected ''Failed to fetch''"]
  note w2 = failed_fetch_keeps_assets[where resp = "Response False (Inl []) :: Coin list response"
      and now = 7 and s = holdingState and query = None and net = sampleDex
      and data = "JArray [\<lparr>tokenAddress = ''0xAB''\<rparr>]"]
  from w1 f1 f2 have p1: "assets (fetchBluechips (Response False (Inl [])) 7 holdingState) = assets holdingState"
    and p2: "assets (fetchMemecoins (Some ''ab'') (\<lambda>_. Rejected ''Failed to fetch'') 7 holdingState) =
     assets holdingState" by blast+
  from w2 h3 o3 a3 f3 have p3: "assets (fetchMemecoins None sampleDex 7 holdingState) = assets holdingState"
    by blast
  from f1 f2 o3 f3 e n p1 p2 p3 show ?thesis by blast
qed

section \<open>Reconciliation of DEX pairs\<close>

lemma insertBy_insort:
  "insertBy byLiquidity x ys = insort_key (\<lambda>p. - liquidityOrZero p) x ys"
  by (induction ys) (simp_all add: byLiquidity_def)

lemma stableSort_sort_key:
  "stableSort byLiquidity xs = sort_key (\<lambda>p. - liquidityOrZero p) xs"
proof -
  have "insertBy byLiquidity = insort_key (\<lambda>p. - liquidityOrZero p)"
    by (intro ext) (rule insertBy_insort)
  then show ?thesis by (simp add: stableSort_def sort_key_def)
qed

lemma set_sortedPairs: "set (sortedPairs bc ps) = set (filteredPairs bc ps)"
  by (simp add: sortedPairs_def stableSort_sort_key)


lemma asset_id_pairToAsset: "asset_id (pairToAsset p) = address (baseToken p)"
  by (simp add: pairToAsset_def Let_def)

lemma collectAssets_ids:
  "set (map asset_id (collectAssets seen xs)) = (\<lambda>p. address (baseToken p)) ` set xs - seen"
  by (induction xs arbitrary: seen) (auto simp: Let_def asset_id_pairToAsset)





lemma mappedAssets_ids:
  "set (map asset_id (mappedAssets bc ps)) =
     (\<lambda>p. address (baseToken p)) ` set (filteredPairs bc ps)"
  using collectAssets_ids[of "{}" "sortedPairs bc ps"]
  by (simp add: mappedAssets_def set_sortedPairs)



lemma parseFloat_zero_text: "parseFloat_string ''0'' = Fin 0"
  by (simp add: parseFloat_string_def parse_unsigned_def is_ws_def is_digit_def digits_val_def
      digit_val_def pow10_def parse_exponent_def)




text \<open>
  C2, as stated, fails: a price text that is not a number is handed to \<open>parseFloat\<close>
  as it is, and the asset's price is NaN, not zero.
\<close>

theorem unparseable_price_is_NaN:
  "currentPrice (pairToAsset (solanaPair (JStr ''abc'') (Some 100))) = NaN \<and>
   currentPrice (pairToAsset (solanaPair (JStr ''abc'') (Some 100))) \<noteq> Fin 0"
  by (simp add: pairToAsset_def solanaPair_def js_or_def parseFloat_string_def
      parse_unsigned_def is_ws_def is_digit_def Let_def)

text \<open>
  C2, amended. In the mapping of a pair to an asset each of the four numeric fields
  (\<open>priceUsd\<close>, \<open>priceChange.h24\<close>, \<open>fdv\<close>, \<open>volume.h24\<close>) that is missing (absent,
  \<open>null\<close> or the empty text) becomes zero, and a non-empty text becomes whatever
  \<open>parseFloat\<close> reads from it. The mapping never fails on these fields: the tokens of
  the assets are the tokens of the filtered pairs, and a single pair that passes the
  filter always gives its asset.
\<close>

theorem missing_numeric_fields_default_to_zero:
  "(missingField (priceUsd p) \<longrightarrow> currentPrice (pairToAsset p) = Fin 0) \<and>
   (missingField (priceChange_h24 p) \<longrightarrow> priceChange24h (pairToAsset p) = Fin 0) \<and>
   (missingField (fdv p) \<longrightarrow> marketCap (pairToAsset p) = Fin 0) \<and>
   (missingField (volume_h24 p) \<longrightarrow> volume24h (pairToAsset p) = Fin 0) \<and>
   (priceUsd p = JStr t \<and> t \<noteq> [] \<longrightarrow> currentPrice (pairToAsset p) = parseFloat_string t) \<and>
   (priceChange_h24 p = JStr t \<and> t \<noteq> [] \<longrightarrow>
      priceChange24h (pairToAsset p) = parseFloat_string t) \<and>
   (fdv p = JStr t \<and> t \<noteq> [] \<longrightarrow> marketCap (pairToAsset p) = parseFloat_string t) \<and>
   (volume_h24 p = JStr t \<and> t \<noteq> [] \<longrightarrow> volume24h (pairToAsset p) = parseFloat_string t) \<and>
   set (map asset_id (mappedAssets bc ps)) =
     (\<lambda>p. address (baseToken p)) ` set (filteredPairs bc ps) \<and>
   mappedAssets AllChains [p] = [pairToAsset p]"
proof -
  have z: "missingField v \<Longrightarrow> parseFloat (js_or v (JStr ''0'')) = Fin 0" for v
    by (auto simp: missingField_def js_or_def parseFloat_zero_text)
  have s: "v = JStr t \<and> t \<noteq> [] \<Longrightarrow> parseFloat (js_or v (JStr ''0'')) = parseFloat_string t" for v
    by (auto simp: js_or_def)
  have one: "mappedAssets AllChains [p] = [pairToAsset p]"
    by (simp add: mappedAssets_def sortedPairs_def filteredPairs_def stableSort_def Let_def)
  show ?thesis
    using z s one mappedAssets_ids[of bc ps] by (simp add: pairToAsset_def Let_def)
qed

theorem missing_numeric_fields_default_to_zero_witness:
  "missingField (priceUsd (solanaPair Undefined None)) \<and>
   missingField (priceChange_h24 (solanaPair Undefined None)) \<and>
   missingField (fdv (solanaPair Undefined None)) \<and>
   missingField (volume_h24 (solanaPair Undefined None)) \<and>
   currentPrice (pairToAsset (solanaPair Undefined None)) = Fin 0 \<and>
   priceChange24h (pairToAsset (solanaPair Undefined None)) = Fin 0 \<and>
   marketCap (pairToAsset (solanaPair Undefined None)) = Fin 0 \<and>
   volume24h (pairToAsset (solanaPair Undefined None)) = Fin 0 \<and>
   currentPrice (pairToAsset (solanaPair (JStr ''2.5'') None)) = Fin (5 / 2) \<and>
   mappedAssets AllChains [solanaPair (JStr ''abc'') None] =
     [pairToAsset (solanaPair (JStr ''abc'') None)]"
proof -
  have m: "missingField (priceUsd (solanaPair Undefined None)) \<and>
   missingField (priceChange_h24 (solanaPair Undefined None)) \<and>
   missingField (fdv (solanaPair Undefined None)) \<and>
   missingField (volume_h24 (solanaPair Undefined None))"
    by (simp add: missingField_def solanaPair_def)
  have t: "priceUsd (solanaPair (JStr ''2.5'') None) = JStr ''2.5'' \<and> ''2.5'' \<noteq> []"
    by (simp add: solanaPair_def)
  have v: "parseFloat_string ''2.5'' = Fin (5 / 2)"
    by (simp add: parseFloat_string_def parse_unsigned_def is_ws_def is_digit_def
        digits_val_def digit_val_def pow10_def parse_exponent_def)
  note w1 = missing_numeric_fields_default_to_zero[of "solanaPair Undefined None"]
  note w2 = missing_numeric_fields_default_to_zero[of "solanaPair (JStr ''2.5'') None" "''2.5''"]
  note w3 = missing_numeric_fields_default_to_zero[of "solanaPair (JStr ''abc'') None"]
  from w1 m have z: "currentPrice (pairToAsset (solanaPair Undefined None)) = Fin 0 \<and>
   priceChange24h (pairToAsset (solanaPair Undefined None)) = Fin 0 \<and>
   marketCap (pairToAsset (solanaPair Undefined None)) = Fin 0 \<and>
   volume24h (pairToAsset (solanaPair Undefined None)) = Fin 0" by blast
  from w2 t v have p: "currentPrice (pairToAsset (solanaPair (JStr ''2.5'') None)) = Fin (5 / 2)"
    by metis
  from w3 have i: "mappedAssets AllChains [solanaPair (JStr ''abc'') None] =
     [pairToAsset (solanaPair (JStr ''abc'') None)]" by blast
  from m z p i show ?thesis by blast
qed

section \<open>The debounce of the search text\<close>

lemma elapse_quiet: "quiet t c \<Longrightarrow> elapse t c = c"
  by (cases c) (auto simp: quiet_def elapse_def split: list.splits)

lemma cleanup_quiet: "quiet t c \<Longrightarrow> timers (cleanupEffect c) = []"
  by (cases c) (auto simp: quiet_def cleanupEffect_def clearTimeout_def split: list.splits option.splits)

lemma cleanup_others:
  "nextTimer (cleanupEffect c) = nextTimer c \<and> fired (cleanupEffect c) = fired c"
  by (simp add: cleanupEffect_def clearTimeout_def split: option.splits)

text \<open>
  A change to a non-blank text, met by a quiet scheduler: the cleanup clears the timer
  that was live, and the effect sets one of its own.
\<close>

lemma handle_search_change:
  assumes "marketMode s = Memecoins" and "q \<noteq> searchQuery s" and "length (trim q) > 0"
    and "quiet t c"
  shows "handleEvent t (TypeSearch q) (s, c) =
           (s\<lparr>searchQuery := q\<rparr>,
            (cleanupEffect c)\<lparr>timers := [(nextTimer c, t + 600, q)],
                               nextTimer := Suc (nextTimer c),
                               effectTimer := Some (nextTimer c)\<rparr>)"
proof -
  have deps: "effectDeps (s\<lparr>searchQuery := q\<rparr>) \<noteq> effectDeps s"
    using assms(2) by (simp add: effectDeps_def)
  have "runEffect t (s\<lparr>searchQuery := q\<rparr>) (cleanupEffect c) =
          (cleanupEffect c)\<lparr>timers := [(nextTimer c, t + 600, q)],
                             nextTimer := Suc (nextTimer c),
                             effectTimer := Some (nextTimer c)\<rparr>"
    using assms(1,3) cleanup_quiet[OF assms(4)] cleanup_others[of c]
    by (simp add: runEffect_def setTimeout_def)
  then show ?thesis
    using deps by (simp add: handleEvent_def elapse_quiet[OF assms(4)] Let_def)
qed

text \<open>A change to a blank text: the cleanup clears the live timer and discovery starts.\<close>

lemma handle_blank_change:
  assumes "marketMode s = Memecoins" and "q \<noteq> searchQuery s" and "length (trim q) = 0"
    and "quiet t c"
  shows "handleEvent t (TypeSearch q) (s, c) =
           (s\<lparr>searchQuery := q\<rparr>,
            (cleanupEffect c)\<lparr>fired := fired c @ [(t, RunFetchMemecoins None)],
                               effectTimer := None\<rparr>)"
proof -
  have deps: "effectDeps (s\<lparr>searchQuery := q\<rparr>) \<noteq> effectDeps s"
    using assms(2) by (simp add: effectDeps_def)
  have "runEffect t (s\<lparr>searchQuery := q\<rparr>) (cleanupEffect c) =
          (cleanupEffect c)\<lparr>fired := fired c @ [(t, RunFetchMemecoins None)],
                             effectTimer := None\<rparr>"
    using assms(1,3) cleanup_others[of c] by (simp add: runEffect_def)
  then show ?thesis
    using deps by (simp add: handleEvent_def elapse_quiet[OF assms(4)] Let_def)
qed

text \<open>
  While changes keep coming in time, each one clears the timer of the change before it
  and sets its own, and nothing is fetched.
\<close>

lemma handle_rapid_changes:
  assumes "marketMode s = Memecoins" and "searchQuery s = q0"
    and "timers c = [(n, t0 + 600, q0)]" and "effectTimer c = Some n"
    and "rapidChanges t0 q0 chs"
  shows "fst (handleEvents (searchEvents chs) (s, c)) =
           s\<lparr>searchQuery := snd (last ((t0, q0) # chs))\<rparr> \<and>
         fired (snd (handleEvents (searchEvents chs) (s, c))) = fired c \<and>
         (\<exists>m. timers (snd (handleEvents (searchEvents chs) (s, c))) =
                 [(m, fst (last ((t0, q0) # chs)) + 600, snd (last ((t0, q0) # chs)))] \<and>
              effectTimer (snd (handleEvents (searchEvents chs) (s, c))) = Some m)"
  using assms
proof (induction chs arbitrary: s c n t0 q0)
  case Nil
  then show ?case by (cases s) (simp add: searchEvents_def)
next
  case (Cons ch chs)
  obtain t q where ch: "ch = (t, q)" by (cases ch)
  from Cons.prems(5) ch have le: "t0 \<le> t" and lt: "t < t0 + 600" and ne: "q \<noteq> q0"
    and nb: "length (trim q) > 0" and rest: "rapidChanges t q chs" by simp_all
  have qu: "quiet t c"
    using Cons.prems(3,4) lt by (simp add: quiet_def)
  let ?s' = "s\<lparr>searchQuery := q\<rparr>"
  let ?c' = "(cleanupEffect c)\<lparr>timers := [(nextTimer c, t + 600, q)],
                               nextTimer := Suc (nextTimer c),
                               effectTimer := Some (nextTimer c)\<rparr>"
  have step: "handleEvent t (TypeSearch q) (s, c) = (?s', ?c')"
    using Cons.prems(1,2) ne nb qu by (intro handle_search_change) auto
  have ih: "fst (handleEvents (searchEvents chs) (?s', ?c')) =
           ?s'\<lparr>searchQuery := snd (last ((t, q) # chs))\<rparr> \<and>
         fired (snd (handleEvents (searchEvents chs) (?s', ?c'))) = fired ?c' \<and>
         (\<exists>m. timers (snd (handleEvents (searchEvents chs) (?s', ?c'))) =
                 [(m, fst (last ((t, q) # chs)) + 600, snd (last ((t, q) # chs)))] \<and>
              effectTimer (snd (handleEvents (searchEvents chs) (?s', ?c'))) = Some m)"
    using Cons.prems(1) rest by (intro Cons.IH[where n = "nextTimer c"]) simp_all
  have run: "handleEvents (searchEvents (ch # chs)) (s, c) =
               handleEvents (searchEvents chs) (?s', ?c')"
    using step ch by (simp add: searchEvents_def)
  have f: "fired ?c' = fired c"
    using cleanup_others[of c] by simp
  have lastEq: "last ((t0, q0) # ch # chs) = last ((t, q) # chs)"
    using ch by simp
  show ?case
    unfolding run lastEq using ih f by (simp del: last.simps)
qed

text \<open>
  C6, as stated, fails for a search text that is not empty but blank: the effect tests
  the trimmed text, so each such change calls \<open>fetchMemecoins()\<close> at once, in discovery
  mode, no timer is set, and no search fetch follows.
\<close>

theorem blank_search_text_not_debounced:
  "'' '' \<noteq> [] \<and> ''  '' \<noteq> [] \<and>
   fired (elapse 700 (snd (handleEvents (searchEvents [(0, '' ''), (100, ''  '')])
                             (solanaMemecoins, idleScheduler)))) =
     [(0, RunFetchMemecoins None), (100, RunFetchMemecoins None)]"
  by (simp add: searchEvents_def handleEvent_def elapse_def effectDeps_def runEffect_def
      cleanupEffect_def trim_def is_ws_def solanaMemecoins_def initialAppState_def
      idleScheduler_def Let_def)

text \<open>
  C6, amended. In Memecoin mode, let the scheduler be quiet (no timer is live but
  possibly the one the effect's cleanup holds, not yet due). Let the search text change
  a number of times, each text non-blank (non-empty once trimmed) and different from the
  one before, each change less than 600ms after the previous one. Then no fetch is
  triggered while the changes arrive; after them exactly one timer is live, the one of
  the last change, every earlier one having been cleared by the cleanup of the effect;
  and the only fetch triggered afterwards is one search fetch for the last text, 600ms
  after the last change. A change to a different text that is blank is not debounced: it
  triggers a discovery fetch at once, clears the live timer, sets none, and no search
  fetch follows.
\<close>

theorem debounce_fires_once:
  assumes "marketMode s = Memecoins" and "quiet t1 c" and "q1 \<noteq> searchQuery s"
  shows "(length (trim q1) > 0 \<and> rapidChanges t1 q1 rest \<longrightarrow>
            fired (snd (handleEvents (searchEvents ((t1, q1) # rest)) (s, c))) = fired c \<and>
            pendingCalls (snd (handleEvents (searchEvents ((t1, q1) # rest)) (s, c))) =
              [(fst (last ((t1, q1) # rest)) + 600, snd (last ((t1, q1) # rest)))] \<and>
            fired (elapse T (snd (handleEvents (searchEvents ((t1, q1) # rest)) (s, c)))) =
              (if fst (last ((t1, q1) # rest)) + 600 \<le> T
               then fired c @ [(fst (last ((t1, q1) # rest)) + 600,
                                RunFetchMemecoins (Some (snd (last ((t1, q1) # rest)))))]
               else fired c)) \<and>
         (length (trim q1) = 0 \<longrightarrow>
            fired (snd (handleEvent t1 (TypeSearch q1) (s, c))) =
              fired c @ [(t1, RunFetchMemecoins None)] \<and>
            pendingCalls (snd (handleEvent t1 (TypeSearch q1) (s, c))) = [] \<and>
            fired (elapse T (snd (handleEvent t1 (TypeSearch q1) (s, c)))) =
              fired c @ [(t1, RunFetchMemecoins None)])"
proof (intro conjI impI)
  assume h: "length (trim q1) > 0 \<and> rapidChanges t1 q1 rest"
  let ?tl = "fst (last ((t1, q1) # rest))" and ?ql = "snd (last ((t1, q1) # rest))"
  let ?s' = "s\<lparr>searchQuery := q1\<rparr>"
  let ?c' = "(cleanupEffect c)\<lparr>timers := [(nextTimer c, t1 + 600, q1)],
                               nextTimer := Suc (nextTimer c),
                               effectTimer := Some (nextTimer c)\<rparr>"
  let ?end = "snd (handleEvents (searchEvents ((t1, q1) # rest)) (s, c))"
  have first: "handleEvent t1 (TypeSearch q1) (s, c) = (?s', ?c')"
    using assms h by (intro handle_search_change) auto
  have run: "handleEvents (searchEvents ((t1, q1) # rest)) (s, c) =
               handleEvents (searchEvents rest) (?s', ?c')"
    using first by (simp add: searchEvents_def)
  have "fired (snd (handleEvents (searchEvents rest) (?s', ?c'))) = fired ?c' \<and>
         (\<exists>m. timers (snd (handleEvents (searchEvents rest) (?s', ?c'))) = [(m, ?tl + 600, ?ql)] \<and>
              effectTimer (snd (handleEvents (searchEvents rest) (?s', ?c'))) = Some m)"
    using handle_rapid_changes[where s = ?s' and c = ?c' and n = "nextTimer c" and ?t0.0 = t1
        and ?q0.0 = q1 and chs = rest] assms(1) h
    by simp
  then obtain m where fe: "fired ?end = fired ?c'" and te: "timers ?end = [(m, ?tl + 600, ?ql)]"
    unfolding run by blast
  have fc: "fired ?c' = fired c" using cleanup_others[of c] by simp
  show "fired ?end = fired c" using fe fc by simp
  show "pendingCalls ?end = [(?tl + 600, ?ql)]" using te by (simp add: pendingCalls_def)
  show "fired (elapse T ?end) =
          (if ?tl + 600 \<le> T then fired c @ [(?tl + 600, RunFetchMemecoins (Some ?ql))]
           else fired c)"
    using fe fc te by (simp add: elapse_def)
next
  assume b: "length (trim q1) = 0"
  let ?c' = "(cleanupEffect c)\<lparr>fired := fired c @ [(t1, RunFetchMemecoins None)],
                               effectTimer := None\<rparr>"
  have step: "handleEvent t1 (TypeSearch q1) (s, c) = (s\<lparr>searchQuery := q1\<rparr>, ?c')"
    using assms b by (intro handle_blank_change) auto
  have tm: "timers ?c' = []" using cleanup_quiet[OF assms(2)] by simp
  show "fired (snd (handleEvent t1 (TypeSearch q1) (s, c))) =
          fired c @ [(t1, RunFetchMemecoins None)]"
    unfolding step by simp
  show "pendingCalls (snd (handleEvent t1 (TypeSearch q1) (s, c))) = []"
    unfolding step using tm by (simp add: pendingCalls_def)
  show "fired (elapse T (snd (handleEvent t1 (TypeSearch q1) (s, c)))) =
          fired c @ [(t1, RunFetchMemecoins None)]"
    unfolding step using tm by (simp add: elapse_def)
qed

lemma typedChanges_rapid:
  "typedChanges = (0, ''d'') # tl typedChanges \<and> rapidChanges 0 ''d'' (tl typedChanges) \<and>
   last typedChanges = (2000, ''dogecoin to the moon!'')"
  by (simp add: typedChanges_def trim_def is_ws_def)

text \<open>
  The phrase typed into the idle page gives one search fetch, at 2600; a blank typed
  while the timer of a search for \<open>doge\<close> is live clears that timer and starts
  discovery.
\<close>

theorem debounce_fires_once_witness:
  "marketMode solanaMemecoins = Memecoins \<and> quiet 0 idleScheduler \<and>
   ''d'' \<noteq> searchQuery solanaMemecoins \<and> length (trim ''d'') > 0 \<and>
   rapidChanges 0 ''d'' (tl typedChanges) \<and>
   fired (snd (handleEvents (searchEvents typedChanges) (solanaMemecoins, idleScheduler))) = [] \<and>
   pendingCalls (snd (handleEvents (searchEvents typedChanges)
                        (solanaMemecoins, idleScheduler))) =
     [(2600, ''dogecoin to the moon!'')] \<and>
   fired (elapse 2599 (snd (handleEvents (searchEvents typedChanges)
                              (solanaMemecoins, idleScheduler)))) = [] \<and>
   fired (elapse 2600 (snd (handleEvents (searchEvents typedChanges)
                              (solanaMemecoins, idleScheduler)))) =
     [(2600, RunFetchMemecoins (Some ''dogecoin to the moon!''))] \<and>
   marketMode (solanaMemecoins\<lparr>searchQuery := ''doge''\<rparr>) = Memecoins \<and>
   quiet 300 (idleScheduler\<lparr>timers := [(4, 700, ''doge'')], nextTimer := 5,
                            effectTimer := Some 4\<rparr>) \<and>
   '' '' \<noteq> searchQuery (solanaMemecoins\<lparr>searchQuery := ''doge''\<rparr>) \<and>
   length (trim '' '') = 0 \<and>
   fired (elapse 5000 (snd (handleEvent 300 (TypeSearch '' '')
      (solanaMemecoins\<lparr>searchQuery := ''doge''\<rparr>,
       idleScheduler\<lparr>timers := [(4, 700, ''doge'')], nextTimer := 5,
                      effectTimer := Some 4\<rparr>)))) =
     [(300, RunFetchMemecoins None)]"
proof -
  let ?s2 = "solanaMemecoins\<lparr>searchQuery := ''doge''\<rparr>"
  let ?c2 = "idleScheduler\<lparr>timers := [(4, 700, ''doge'')], nextTimer := 5,
                            effectTimer := Some 4\<rparr>"
  have h1: "marketMode solanaMemecoins = Memecoins"
    by (simp add: solanaMemecoins_def initialAppState_def)
  have h2: "quiet 0 idleScheduler" by (simp add: quiet_def idleScheduler_def)
  have h3: "''d'' \<noteq> searchQuery solanaMemecoins"
    by (simp add: solanaMemecoins_def initialAppState_def)
  have h4: "length (trim ''d'') > 0" by (simp add: trim_def is_ws_def)
  from typedChanges_rapid have h5: "rapidChanges 0 ''d'' (tl typedChanges)"
    and shape: "(0, ''d'') # tl typedChanges = typedChanges"
    and lst: "last typedChanges = (2000, ''dogecoin to the moon!'')" by simp_all
  have f0: "fired idleScheduler = []" by (simp add: idleScheduler_def)
  have g1: "marketMode ?s2 = Memecoins"
    by (simp add: solanaMemecoins_def initialAppState_def)
  have g2: "quiet 300 ?c2" by (simp add: quiet_def)
  have g3: "'' '' \<noteq> searchQuery ?s2" by simp
  have g4: "length (trim '' '') = 0" by (simp add: trim_def is_ws_def)
  have f2: "fired ?c2 = []" by (simp add: idleScheduler_def)
  note w = debounce_fires_once[OF h1 h2 h3, of "tl typedChanges", unfolded shape lst fst_conv snd_conv f0]
  note v = debounce_fires_once[OF g1 g2 g3, of _ 5000, unfolded f2]
  from w[of 2599] h4 h5
  have a: "fired (snd (handleEvents (searchEvents typedChanges) (solanaMemecoins, idleScheduler))) = [] \<and>
     pendingCalls (snd (handleEvents (searchEvents typedChanges) (solanaMemecoins, idleScheduler))) =
       [(2600, ''dogecoin to the moon!'')] \<and>
     fired (elapse 2599 (snd (handleEvents (searchEvents typedChanges)
                              (solanaMemecoins, idleScheduler)))) = []"
    by simp
  from w[of 2600] h4 h5
  have b: "fired (elapse 2600 (snd (handleEvents (searchEvents typedChanges)
                              (solanaMemecoins, idleScheduler)))) =
     [(2600, RunFetchMemecoins (Some ''dogecoin to the moon!''))]"
    by simp
  from v g4 have c: "fired (elapse 5000 (snd (handleEvent 300 (TypeSearch '' '') (?s2, ?c2)))) =
     [(300, RunFetchMemecoins None)]"
    by simp
  from a b c h1 h2 h3 h4 h5 g1 g2 g3 g4 show ?thesis by blast
qed

section \<open>The news cache\<close>

lemma freshFetch_calls: "networkCalls (freshFetch env s) = Suc (networkCalls s)"
  by (simp add: freshFetch_def Let_def split: ai_reply.splits)

lemma freshFetch_success:
  "service env = CallReturns response \<Longrightarrow>
   newsItemsOf (formatTime env) (clock_items env) response = newsItems \<Longrightarrow>
   newsItems \<noteq> [] \<Longrightarrow>
   freshFetch env s =
     s\<lparr>newsLoading := False, newsError := False, isCached := False,
       networkCalls := Suc (networkCalls s), news := newsItems,
       localStorage :=
         Some (Serialized \<lparr>items = newsItems, expiry = clock_write env + CACHE_TTL\<rparr>)\<rparr>"
  by (simp add: freshFetch_def Let_def JSON_stringify_def)

lemma freshFetch_throws:
  "service env = CallThrows \<Longrightarrow>
   freshFetch env s =
     s\<lparr>newsLoading := False, newsError := True, isCached := False,
       networkCalls := Suc (networkCalls s)\<rparr>"
  by (simp add: freshFetch_def Let_def)

lemma freshFetch_no_items:
  "service env = CallReturns response \<Longrightarrow>
   newsItemsOf (formatTime env) (clock_items env) response = [] \<Longrightarrow>
   freshFetch env s =
     s\<lparr>newsLoading := False, newsError := True, isCached := False,
       networkCalls := Suc (networkCalls s)\<rparr>"
  by (simp add: freshFetch_def Let_def)

lemma fetchNews_hit:
  "localStorage s = Some (Serialized c) \<Longrightarrow> clock_check env < expiry c \<Longrightarrow>
   fetchNews False env s = s\<lparr>news := items c, newsLoading := False, isCached := True\<rparr>"
  by (simp add: fetchNews_def checkCache_def JSON_parse_def)

lemma fetchNews_wrote:
  assumes "service env = CallReturns response"
    and "newsItemsOf (formatTime env) (clock_items env) response = newsItems"
    and "newsItems \<noteq> []"
    and "networkCalls (fetchNews force env s) = Suc (networkCalls s)"
  shows "localStorage (fetchNews force env s) =
           Some (Serialized \<lparr>items = newsItems, expiry = clock_write env + CACHE_TTL\<rparr>)"
  using assms(4)
  by (auto simp: fetchNews_def freshFetch_success[OF assms(1-3)] split: prod.splits option.splits)

lemma fetchNews_malformed:
  "localStorage s = Some Malformed \<Longrightarrow>
   fetchNews False env s = freshFetch env (s\<lparr>localStorage := None\<rparr>)"
  by (simp add: fetchNews_def checkCache_def JSON_parse_def)

lemma fetchNews_expired:
  assumes "localStorage s = Some (Serialized c)" and "expiry c \<le> clock_check env"
  shows "fetchNews False env s = freshFetch env s"
proof -
  have same: "s\<lparr>localStorage := Some (Serialized c)\<rparr> = s"
    using assms(1) by (cases s) simp
  have "fetchNews False env s = freshFetch env (s\<lparr>localStorage := Some (Serialized c)\<rparr>)"
    using assms by (simp add: fetchNews_def checkCache_def JSON_parse_def)
  then show ?thesis by (simp only: same)
qed

lemma sample_newsItems: "newsItemsOf sampleClock 2000 sampleResponse = sampleItems"
  by (simp add: newsItemsOf_def sampleResponse_def sampleItems_def newsItemAt_def trim_def
      is_ws_def is_digit_def stripNumbering_def stripBullet_def uriAt_def sampleClock_def
      enumerate_eq_zip Let_def)

text \<open>
  C3. Let a call of \<open>fetchNews\<close> reach the service, build a non-empty list of items
  from the reply and so write the cache, with expiry its clock reading at the write plus
  \<open>CACHE_TTL\<close>. Then a non-forced call whose clock reading is before that expiry shows
  exactly those items, marks them as cached, makes no call to the service and leaves the
  entry as written.
\<close>

theorem news_cache_round_trip:
  assumes "service env = CallReturns response"
    and "newsItemsOf (formatTime env) (clock_items env) response = newsItems"
    and "newsItems \<noteq> []"
    and "networkCalls (fetchNews force env s) = Suc (networkCalls s)"
    and "clock_check env' < clock_write env + CACHE_TTL"
  shows "news (fetchNews False env' (fetchNews force env s)) = newsItems \<and>
         networkCalls (fetchNews False env' (fetchNews force env s)) =
           networkCalls (fetchNews force env s) \<and>
         isCached (fetchNews False env' (fetchNews force env s)) \<and>
         localStorage (fetchNews False env' (fetchNews force env s)) =
           Some (JSON_stringify \<lparr>items = newsItems, expiry = clock_write env + CACHE_TTL\<rparr>)"
proof -
  let ?s1 = "fetchNews force env s"
  let ?c = "\<lparr>items = newsItems, expiry = clock_write env + CACHE_TTL\<rparr>"
  have st: "localStorage ?s1 = Some (Serialized ?c)"
    using assms(1-4) by (rule fetchNews_wrote)
  have "clock_check env' < expiry ?c" using assms(5) by simp
  from fetchNews_hit[OF st this]
  have "fetchNews False env' ?s1 =
          ?s1\<lparr>news := items ?c, newsLoading := False, isCached := True\<rparr>" .
  then show ?thesis using st by (simp add: JSON_stringify_def)
qed

theorem news_cache_round_trip_witness:
  "service (sampleCall 1000 (CallReturns sampleResponse)) = CallReturns sampleResponse \<and>
   sampleItems \<noteq> [] \<and>
   networkCalls (fetchNews False (sampleCall 1000 (CallReturns sampleResponse)) initialNewsState) =
     Suc (networkCalls initialNewsState) \<and>
   clock_check (sampleCall 901999 CallThrows) <
     clock_write (sampleCall 1000 (CallReturns sampleResponse)) + CACHE_TTL \<and>
   news (fetchNews False (sampleCall 901999 CallThrows)
           (fetchNews False (sampleCall 1000 (CallReturns sampleResponse)) initialNewsState)) =
     sampleItems \<and>
   networkCalls (fetchNews False (sampleCall 901999 CallThrows)
           (fetchNews False (sampleCall 1000 (CallReturns sampleResponse)) initialNewsState)) = 1"
proof -
  let ?e = "sampleCall 1000 (CallReturns sampleResponse)"
  have h1: "service ?e = CallReturns sampleResponse" by (simp add: sampleCall_def)
  have h2: "newsItemsOf (formatTime ?e) (clock_items ?e) sampleResponse = sampleItems"
    by (simp add: sampleCall_def sample_newsItems)
  have h3: "sampleItems \<noteq> []" by (simp add: sampleItems_def)
  have h4: "networkCalls (fetchNews False ?e initialNewsState) = Suc (networkCalls initialNewsState)"
    by (simp add: fetchNews_def checkCache_def initialNewsState_def freshFetch_calls)
  have h5: "clock_check (sampleCall 901999 CallThrows) < clock_write ?e + CACHE_TTL"
    by (simp add: sampleCall_def CACHE_TTL_def)
  have n0: "networkCalls initialNewsState = 0" by (simp add: initialNewsState_def)
  note w = news_cache_round_trip[OF h1 h2 h3 h4 h5]
  from w h1 h3 h4 h5 n0 show ?thesis by simp
qed

text \<open>
  C4, as stated, fails for an expired entry: the read leaves it in the store. Here the
  entry expired at 500, the read happens at 1000 and the fetch that follows fails; the
  entry is still there afterwards.
\<close>

theorem expired_entry_not_deleted:
  "snd (checkCache 1000 (Some (Serialized \<lparr>items = [staleItem], expiry = 500\<rparr>))) =
     Some (Serialized \<lparr>items = [staleItem], expiry = 500\<rparr>) \<and>
   localStorage (fetchNews False (sampleCall 1000 CallThrows)
      (initialNewsState\<lparr>localStorage := Some (Serialized \<lparr>items = [staleItem], expiry = 500\<rparr>)\<rparr>)) =
     Some (Serialized \<lparr>items = [staleItem], expiry = 500\<rparr>)"
  by (simp add: checkCache_def JSON_parse_def fetchNews_def freshFetch_def sampleCall_def
      initialNewsState_def Let_def)

text \<open>
  C4, amended. A non-forced read that finds a non-empty text which does not
  deserialise removes the entry from the store during the read and goes on to a fresh
  fetch: the service is called, and if the call throws or its reply has no usable line
  the store stays empty. A non-forced read that finds an expired entry also goes on to a
  fresh fetch, but leaves the entry in place: if the call throws or its reply has no
  usable line the expired entry is still stored, and a fetch that builds a non-empty
  list of items replaces it.
\<close>

theorem corrupt_deleted_expired_kept:
  "(localStorage s = Some Malformed \<longrightarrow>
      snd (checkCache (clock_check env) (localStorage s)) = None \<and>
      networkCalls (fetchNews False env s) = Suc (networkCalls s) \<and>
      (service env = CallThrows \<longrightarrow> localStorage (fetchNews False env s) = None) \<and>
      (service env = CallReturns response \<and>
       newsItemsOf (formatTime env) (clock_items env) response = [] \<longrightarrow>
         localStorage (fetchNews False env s) = None)) \<and>
   (localStorage s = Some (Serialized c) \<and> expiry c \<le> clock_check env \<longrightarrow>
      snd (checkCache (clock_check env) (localStorage s)) = localStorage s \<and>
      networkCalls (fetchNews False env s) = Suc (networkCalls s) \<and>
      (service env = CallThrows \<longrightarrow>
         localStorage (fetchNews False env s) = Some (Serialized c)) \<and>
      (service env = CallReturns response \<and>
       newsItemsOf (formatTime env) (clock_items env) response = [] \<longrightarrow>
         localStorage (fetchNews False env s) = Some (Serialized c)) \<and>
      (service env = CallReturns response \<and>
       newsItemsOf (formatTime env) (clock_items env) response \<noteq> [] \<longrightarrow>
         localStorage (fetchNews False env s) =
           Some (JSON_stringify
                   \<lparr>items = newsItemsOf (formatTime env) (clock_items env) response,
                    expiry = clock_write env + CACHE_TTL\<rparr>)))"
proof -
  have m: "localStorage s = Some Malformed \<Longrightarrow>
      snd (checkCache (clock_check env) (localStorage s)) = None \<and>
      networkCalls (fetchNews False env s) = Suc (networkCalls s) \<and>
      (service env = CallThrows \<longrightarrow> localStorage (fetchNews False env s) = None) \<and>
      (service env = CallReturns response \<and>
       newsItemsOf (formatTime env) (clock_items env) response = [] \<longrightarrow>
         localStorage (fetchNews False env s) = None)"
    by (simp add: fetchNews_malformed freshFetch_calls freshFetch_throws freshFetch_no_items)
      (simp add: checkCache_def JSON_parse_def)
  have e: "localStorage s = Some (Serialized c) \<and> expiry c \<le> clock_check env \<Longrightarrow>
      snd (checkCache (clock_check env) (localStorage s)) = localStorage s \<and>
      networkCalls (fetchNews False env s) = Suc (networkCalls s) \<and>
      (service env = CallThrows \<longrightarrow>
         localStorage (fetchNews False env s) = Some (Serialized c)) \<and>
      (service env = CallReturns response \<and>
       newsItemsOf (formatTime env) (clock_items env) response = [] \<longrightarrow>
         localStorage (fetchNews False env s) = Some (Serialized c)) \<and>
      (service env = CallReturns response \<and>
       newsItemsOf (formatTime env) (clock_items env) response \<noteq> [] \<longrightarrow>
         localStorage (fetchNews False env s) =
           Some (JSON_stringify
                   \<lparr>items = newsItemsOf (formatTime env) (clock_items env) response,
                    expiry = clock_write env + CACHE_TTL\<rparr>))"
    by (simp add: fetchNews_expired freshFetch_calls freshFetch_throws freshFetch_success
        freshFetch_no_items JSON_stringify_def)
      (simp add: checkCache_def JSON_parse_def)
  from m e show ?thesis by blast
qed

theorem corrupt_deleted_expired_kept_witness:
  "localStorage (initialNewsState\<lparr>localStorage := Some Malformed\<rparr>) = Some Malformed \<and>
   service (sampleCall 1000 CallThrows) = CallThrows \<and>
   localStorage (fetchNews False (sampleCall 1000 CallThrows)
                   (initialNewsState\<lparr>localStorage := Some Malformed\<rparr>)) = None \<and>
   networkCalls (fetchNews False (sampleCall 1000 CallThrows)
                   (initialNewsState\<lparr>localStorage := Some Malformed\<rparr>)) = 1 \<and>
   expiry \<lparr>items = [staleItem], expiry = 500\<rparr> \<le> clock_check (sampleCall 1000 CallThrows) \<and>
   localStorage (fetchNews False (sampleCall 1000 CallThrows)
      (initialNewsState\<lparr>localStorage := Some (Serialized \<lparr>items = [staleItem], expiry = 500\<rparr>)\<rparr>)) =
     Some (Serialized \<lparr>items = [staleItem], expiry = 500\<rparr>) \<and>
   sampleItems \<noteq> [] \<and>
   localStorage (fetchNews False (sampleCall 1000 (CallReturns sampleResponse))
      (initialNewsState\<lparr>localStorage := Some (Serialized \<lparr>items = [staleItem], expiry = 500\<rparr>)\<rparr>)) =
     Some (JSON_stringify \<lparr>items = sampleItems, expiry = 2000 + CACHE_TTL\<rparr>) \<and>
   newsItemsOf sampleClock 2000 silentResponse = [] \<and>
   localStorage (fetchNews False (sampleCall 1000 (CallReturns silentResponse))
                   (initialNewsState\<lparr>localStorage := Some Malformed\<rparr>)) = None \<and>
   localStorage (fetchNews False (sampleCall 1000 (CallReturns silentResponse))
      (initialNewsState\<lparr>localStorage := Some (Serialized \<lparr>items = [staleItem], expiry = 500\<rparr>)\<rparr>)) =
     Some (Serialized \<lparr>items = [staleItem], expiry = 500\<rparr>)"
proof -
  let ?bad = "initialNewsState\<lparr>localStorage := Some Malformed\<rparr>"
  let ?c = "\<lparr>items = [staleItem], expiry = 500\<rparr>"
  let ?old = "initialNewsState\<lparr>localStorage := Some (Serialized ?c)\<rparr>"
  let ?t = "sampleCall 1000 CallThrows"
  let ?r = "sampleCall 1000 (CallReturns sampleResponse)"
  have h1: "localStorage ?bad = Some Malformed" by simp
  have h2: "localStorage ?old = Some (Serialized ?c)" by simp
  have h3: "service ?t = CallThrows" "service ?r = CallReturns sampleResponse"
    by (simp_all add: sampleCall_def)
  have h4: "expiry ?c \<le> clock_check ?t" "expiry ?c \<le> clock_check ?r"
    by (simp_all add: sampleCall_def)
  have h5: "newsItemsOf (formatTime ?r) (clock_items ?r) sampleResponse = sampleItems"
    by (simp add: sampleCall_def sample_newsItems)
  have h6: "sampleItems \<noteq> []" by (simp add: sampleItems_def)
  have w: "clock_write ?r = 2000" by (simp add: sampleCall_def)
  have n: "networkCalls ?bad = 0" by (simp add: initialNewsState_def)
  note w1 = corrupt_deleted_expired_kept[where s = ?bad and env = ?t]
  note w2 = corrupt_deleted_expired_kept[where s = ?old and env = ?t and c = ?c]
  note w3 = corrupt_deleted_expired_kept[where s = ?old and env = ?r and c = ?c
      and response = sampleResponse]
  from w1 h1 h3(1) have a: "networkCalls (fetchNews False ?t ?bad) = Suc (networkCalls ?bad) \<and>
      localStorage (fetchNews False ?t ?bad) = None" by blast
  from w2 h2 h3(1) h4(1) have b: "localStorage (fetchNews False ?t ?old) = Some (Serialized ?c)"
    by blast
  from w3 h2 h3(2) h4(2) h5 h6 have c: "localStorage (fetchNews False ?r ?old) =
      Some (JSON_stringify \<lparr>items = sampleItems, expiry = clock_write ?r + CACHE_TTL\<rparr>)"
    by metis
  let ?q = "sampleCall 1000 (CallReturns silentResponse)"
  have k1: "service ?q = CallReturns silentResponse" by (simp add: sampleCall_def)
  have k2: "newsItemsOf sampleClock 2000 silentResponse = []"
    by (simp add: newsItemsOf_def silentResponse_def trim_def)
  have k3: "newsItemsOf (formatTime ?q) (clock_items ?q) silentResponse = []"
    using k2 by (simp add: sampleCall_def)
  have k4: "expiry ?c \<le> clock_check ?q" by (simp add: sampleCall_def)
  note w4 = corrupt_deleted_expired_kept[where s = ?bad and env = ?q
      and response = silentResponse]
  note w5 = corrupt_deleted_expired_kept[where s = ?old and env = ?q and c = ?c
      and response = silentResponse]
  from w4 h1 k1 k3 have d: "localStorage (fetchNews False ?q ?bad) = None" by blast
  from w5 h2 k1 k3 k4 have e: "localStorage (fetchNews False ?q ?old) = Some (Serialized ?c)"
    by blast
  from a b c d e k2 h1 h3(1) h4(1) h6 n w show ?thesis by simp
qed

text \<open>
  C5. A forced refresh does not look at the cache: it always calls the service, and what
  it shows does not depend on the stored entry or on the clock reading of the read path.
  When the reply gives a non-empty list of items, the stored entry becomes those items
  with expiry the clock reading at the write plus \<open>CACHE_TTL\<close>, whatever was stored
  before.
\<close>

theorem forced_refresh_bypasses_cache:
  "networkCalls (fetchNews True env (s\<lparr>localStorage := cell\<rparr>)) = Suc (networkCalls s) \<and>
   news (fetchNews True env (s\<lparr>localStorage := cell\<rparr>)) =
     news (fetchNews True (env\<lparr>clock_check := now'\<rparr>) (s\<lparr>localStorage := cell'\<rparr>)) \<and>
   isCached (fetchNews True env (s\<lparr>localStorage := cell\<rparr>)) = False \<and>
   newsError (fetchNews True env (s\<lparr>localStorage := cell\<rparr>)) =
     newsError (fetchNews True (env\<lparr>clock_check := now'\<rparr>) (s\<lparr>localStorage := cell'\<rparr>)) \<and>
   (service env = CallReturns response \<and>
    newsItemsOf (formatTime env) (clock_items env) response \<noteq> [] \<longrightarrow>
      news (fetchNews True env (s\<lparr>localStorage := cell\<rparr>)) =
        newsItemsOf (formatTime env) (clock_items env) response \<and>
      localStorage (fetchNews True env (s\<lparr>localStorage := cell\<rparr>)) =
        Some (JSON_stringify
                \<lparr>items = newsItemsOf (formatTime env) (clock_items env) response,
                 expiry = clock_write env + CACHE_TTL\<rparr>))"
  by (cases "service env")
    (simp_all add: fetchNews_def freshFetch_def Let_def)

theorem forced_refresh_bypasses_cache_witness:
  "clock_check (sampleCall 1000 (CallReturns sampleResponse)) <
     expiry \<lparr>items = [staleItem], expiry = 5000\<rparr> \<and>
   service (sampleCall 1000 (CallReturns sampleResponse)) = CallReturns sampleResponse \<and>
   sampleItems \<noteq> [] \<and>
   networkCalls (fetchNews True (sampleCall 1000 (CallReturns sampleResponse))
      (initialNewsState\<lparr>localStorage := Some (Serialized \<lparr>items = [staleItem], expiry = 5000\<rparr>)\<rparr>)) = 1 \<and>
   news (fetchNews True (sampleCall 1000 (CallReturns sampleResponse))
      (initialNewsState\<lparr>localStorage := Some (Serialized \<lparr>items = [staleItem], expiry = 5000\<rparr>)\<rparr>)) =
     sampleItems \<and>
   localStorage (fetchNews True (sampleCall 1000 (CallReturns sampleResponse))
      (initialNewsState\<lparr>localStorage := Some (Serialized \<lparr>items = [staleItem], expiry = 5000\<rparr>)\<rparr>)) =
     Some (JSON_stringify \<lparr>items = sampleItems, expiry = 2000 + CACHE_TTL\<rparr>)"
proof -
  let ?r = "sampleCall 1000 (CallReturns sampleResponse)"
  have h1: "service ?r = CallReturns sampleResponse" by (simp add: sampleCall_def)
  have h2: "newsItemsOf (formatTime ?r) (clock_items ?r) sampleResponse = sampleItems"
    by (simp add: sampleCall_def sample_newsItems)
  have h3: "sampleItems \<noteq> []" by (simp add: sampleItems_def)
  have c: "clock_check ?r < expiry \<lparr>items = [staleItem], expiry = 5000\<rparr>"
    by (simp add: sampleCall_def)
  have w: "clock_write ?r = 2000" by (simp add: sampleCall_def)
  have n: "networkCalls initialNewsState = 0" by (simp add: initialNewsState_def)
  note inst = forced_refresh_bypasses_cache[where s = initialNewsState and env = ?r
      and response = sampleResponse
      and cell = "Some (Serialized \<lparr>items = [staleItem], expiry = 5000\<rparr>)"]
  from inst h1 h2 h3 have "networkCalls (fetchNews True ?r
      (initialNewsState\<lparr>localStorage := Some (Serialized \<lparr>items = [staleItem], expiry = 5000\<rparr>)\<rparr>)) =
        Suc (networkCalls initialNewsState) \<and>
      news (fetchNews True ?r
      (initialNewsState\<lparr>localStorage := Some (Serialized \<lparr>items = [staleItem], expiry = 5000\<rparr>)\<rparr>)) =
        sampleItems \<and>
      localStorage (fetchNews True ?r
      (initialNewsState\<lparr>localStorage := Some (Serialized \<lparr>items = [staleItem], expiry = 5000\<rparr>)\<rparr>)) =
        Some (JSON_stringify \<lparr>items = sampleItems, expiry = clock_write ?r + CACHE_TTL\<rparr>)"
    by metis
  with h1 h3 c w n show ?thesis by simp
qed

section \<open>The assistant's fallback\<close>

lemma prefix_set: "prefix xs ys \<Longrightarrow> set xs \<subseteq> set ys"
  by (auto simp: prefix_def)

lemma str_includes_set: "str_includes s sub \<Longrightarrow> set sub \<subseteq> set s"
proof (induction s)
  case Nil
  then show ?case by simp
next
  case (Cons c cs)
  from Cons.prems have "prefix sub (c # cs) \<or> str_includes cs sub" by simp
  then show ?case
  proof
    assume "prefix sub (c # cs)"
    then show ?thesis by (rule prefix_set)
  next
    assume "str_includes cs sub"
    then have "set sub \<subseteq> set cs" by (rule Cons.IH)
    then show ?thesis by auto
  qed
qed

lemma str_includes_suffix: "str_includes (xs @ ys) ys"
  by (induction xs) (auto simp: neq_Nil_conv intro: list.exhaust[of ys])

text \<open>The marker has an opening parenthesis; none of the five canned replies has one.\<close>

lemma paren_marker: "CHR ''('' \<in> set degradedMarker"
  by (simp add: degradedMarker_def)

lemma paren_bitcoin: "CHR ''('' \<notin> set bitcoinReply"
  by (simp add: bitcoinReply_def)

lemma paren_ethereum: "CHR ''('' \<notin> set ethereumReply"
  by (simp add: ethereumReply_def)

lemma paren_memecoin: "CHR ''('' \<notin> set memecoinReply"
  by (simp add: memecoinReply_def)

lemma paren_market: "CHR ''('' \<notin> set marketReply"
  by (simp add: marketReply_def)

lemma paren_default: "CHR ''('' \<notin> set defaultReply"
  by (simp add: defaultReply_def)

lemma simulated_no_paren: "CHR ''('' \<notin> set (getSimulatedResponse t)"
  by (simp add: getSimulatedResponse_def Let_def paren_bitcoin paren_ethereum paren_memecoin
      paren_market paren_default)

lemma simulated_unmarked: "\<not> str_includes (getSimulatedResponse t) degradedMarker"
  using str_includes_set[of "getSimulatedResponse t" degradedMarker] paren_marker
    simulated_no_paren[of t] by blast

text \<open>
  C7. Let a request be sent (its text is not blank and no reply is being awaited).
  Without the credential, whatever the live service would do, the reply appended is the
  text of \<open>getSimulatedResponse\<close> on the request's text, and it does not contain the
  marker. With the credential and a live call that throws, the reply appended is that
  same text followed by the marker.
\<close>

theorem fallback_same_text_marked:
  assumes "trim (textToSend overrideInput s) \<noteq> []" and "\<not> isTyping s"
  shows "messages (sendMessage False overrideInput live t_user t_model s) =
           messages s @
             [\<lparr>role = User, msg_text = textToSend overrideInput s, sources = None,
               msg_timestamp = t_user\<rparr>,
              \<lparr>role = Model, msg_text = getSimulatedResponse (textToSend overrideInput s),
               sources = None, msg_timestamp = t_model\<rparr>] \<and>
         \<not> str_includes (getSimulatedResponse (textToSend overrideInput s)) degradedMarker \<and>
         messages (sendMessage True overrideInput CallThrows t_user t_model s) =
           messages s @
             [\<lparr>role = User, msg_text = textToSend overrideInput s, sources = None,
               msg_timestamp = t_user\<rparr>,
              \<lparr>role = Model,
               msg_text = getSimulatedResponse (textToSend overrideInput s) @ degradedMarker,
               sources = None, msg_timestamp = t_model\<rparr>] \<and>
         str_includes (getSimulatedResponse (textToSend overrideInput s) @ degradedMarker)
           degradedMarker"
  using assms
  by (simp add: sendMessage_def Let_def simulated_unmarked str_includes_suffix)

lemma sample_reply: "getSimulatedResponse ''Next Bitcoin move?'' = bitcoinReply"
  by code_simp

theorem fallback_same_text_marked_witness:
  "trim (textToSend (Some ''Next Bitcoin move?'') initialChatState) \<noteq> [] \<and>
   \<not> isTyping initialChatState \<and>
   map msg_text (messages (sendMessage False (Some ''Next Bitcoin move?'') CallThrows
                             ''09:30'' ''09:31'' initialChatState)) =
     [''Next Bitcoin move?'', bitcoinReply] \<and>
   map msg_text (messages (sendMessage True (Some ''Next Bitcoin move?'') CallThrows
                             ''09:30'' ''09:31'' initialChatState)) =
     [''Next Bitcoin move?'', bitcoinReply @ degradedMarker]"
proof -
  have t: "textToSend (Some ''Next Bitcoin move?'') initialChatState = ''Next Bitcoin move?''"
    by (simp add: textToSend_def)
  have h1: "trim (textToSend (Some ''Next Bitcoin move?'') initialChatState) \<noteq> []"
    unfolding t by (simp add: trim_def is_ws_def)
  have h2: "\<not> isTyping initialChatState" by (simp add: initialChatState_def)
  have m: "messages initialChatState = []" by (simp add: initialChatState_def)
  note w = fallback_same_text_marked[OF h1 h2, of CallThrows "''09:30''" "''09:31''",
      unfolded t sample_reply m]
  from w h1 h2 show ?thesis by simp
qed


end
